theory Spec2Isabelle
  imports Complex_Main "HOL-Library.Log_Nat" "HOL-Library.Sublist" "HOL-Library.Monad_Syntax"
begin

section \<open>Python values used by \<open>run_eval.py\<close>\<close>

text \<open>
  Exceptions are values.  \<open>LibraryError\<close> stands for any exception raised inside a call
  into a library (transformers, datasets, evaluate, the normalizer package); its
  argument identifies the exception object.
\<close>

datatype error =
    ZeroDivisionError
  | IndexError
  | AttributeError
  | NameError
  | LibraryError string

subsection \<open>Floats\<close>

text \<open>
  A Python float is an IEEE 754 binary64 number.  A finite float is modelled by the
  rational number it denotes; every arithmetic operation computes the exact result and
  rounds it to the nearest binary64 value, ties to even (\<open>fl\<close>).  Subnormal numbers are
  covered (the exponent is clamped at \<open>-1022\<close>); overflow to infinity and NaN are not.
\<close>

type_synonym float = rat

definition round_half_even :: "rat \<Rightarrow> int" where
  "round_half_even x =
     (let f = \<lfloor>x\<rfloor>; d = x - of_int f
      in if d < 1 / 2 then f
         else if 1 / 2 < d then f + 1
         else if even f then f else f + 1)"

definition pow2 :: "int \<Rightarrow> rat" where
  "pow2 e = (if 0 \<le> e then 2 ^ nat e else 1 / 2 ^ nat (- e))"

definition ilog2 :: "rat \<Rightarrow> int" where
  \<comment> \<open>for \<open>0 < x\<close>: the \<open>e\<close> with \<open>2 ^ e \<le> x < 2 ^ (e + 1)\<close>\<close>
  "ilog2 x =
     (let (p, q) = quotient_of x; d = bitlen p - bitlen q
      in if pow2 d \<le> x then d else d - 1)"

definition ulp :: "rat \<Rightarrow> rat" where
  "ulp x = pow2 (max (ilog2 \<bar>x\<bar>) (- 1022) - 52)"

definition fl :: "rat \<Rightarrow> float" where
  "fl x = (if x = 0 then 0 else of_int (round_half_even (x / ulp x)) * ulp x)"

definition fmul :: "float \<Rightarrow> float \<Rightarrow> float" where
  "fmul a b = fl (a * b)"

definition fsub :: "float \<Rightarrow> float \<Rightarrow> float" where
  "fsub a b = fl (a - b)"

definition fadd :: "float \<Rightarrow> float \<Rightarrow> float" where
  "fadd a b = fl (a + b)"

definition fdiv :: "float \<Rightarrow> float \<Rightarrow> error + float" where
  \<comment> \<open>\<open>a / b\<close>\<close>
  "fdiv a b = (if b = 0 then Inl ZeroDivisionError else Inr (fl (a / b)))"

definition py_round2 :: "float \<Rightarrow> float" where
  \<comment> \<open>\<open>round(x, 2)\<close>: the exact value of \<open>x\<close> rounded half-even to two decimals, then
      the nearest float to that decimal\<close>
  "py_round2 x = fl (of_int (round_half_even (x * 100)) / 100)"

definition py_sum :: "float list \<Rightarrow> float" where
  \<comment> \<open>\<open>sum(xs)\<close>: starts from \<open>0\<close> and adds from the left, rounding after each addition
      (CPython up to 3.11; later versions compensate the rounding errors of a float sum)\<close>
  "py_sum xs = foldl fadd 0 xs"


section \<open>Data of the evaluation run\<close>

text \<open>The parsed command line (\<open>args\<close>).\<close>

record args =
  model_id :: string
  dataset_path :: string
  dataset :: string
  split :: string
  device :: int
  batch_size :: int
  max_eval_samples :: "int option"
  streaming :: bool

type_synonym audio = "float list"

text \<open>
  A row of the prepared dataset: the waveform \<open>audio["array"]\<close>, the duration column
  and the normalised reference text.  A batch handed to \<open>benchmark\<close> is a list of rows;
  its column \<open>batch["audio"]\<close> is \<open>map audio batch\<close>, and likewise for the other keys.
\<close>

record sample =
  audio :: audio
  audio_length_s :: float
  norm_text :: string

text \<open>
  The four keys read by the result loop.  A row of the mapped dataset holds one value
  under each key; a mapped batch and \<open>all_results\<close> hold one list under each key.
\<close>

record ('f, 's) results =
  audio_length_s :: 'f
  transcription_time_s :: 'f
  predictions :: 's
  references :: 's

type_synonym result = "(float, string) results"
type_synonym columns = "(float list, string list) results"

record gen_kwargs =
  max_new_tokens :: nat
  language :: "string option"
  task :: "string option"

text \<open>Keyword arguments of the two \<open>processor(audios, ...)\<close> calls; \<open>None\<close>: not passed.\<close>

record processor_kwargs =
  sampling_rate :: nat
  truncation :: "bool option"
  padding :: "string option"
  return_tensors :: string
  return_attention_mask :: "bool option"

text \<open>
  The loaded model and processor, as far as the script observes them.  \<open>'i\<close> is the type
  of preprocessed inputs, \<open>'p\<close> the type of predicted token ids.
\<close>

record ('i, 'p) model =
  can_generate :: bool
  is_multilingual :: "bool option"
  generate :: "'i \<Rightarrow> gen_kwargs \<Rightarrow> error + 'p"
  forward_argmax :: "'i \<Rightarrow> error + 'p"

record ('i, 'p) processor =
  model_input_names :: "string list"
  n_samples :: "nat option"
  call :: "audio list \<Rightarrow> processor_kwargs \<Rightarrow> error + 'i"
  batch_decode :: "'p \<Rightarrow> error + string list"

record config =
  config_class :: string

text \<open>
  Everything outside \<open>run_eval.py\<close> that the script calls: the transformers, datasets and
  evaluate libraries, the \<open>normalizer.data_utils\<close> module and the clock.  \<open>'r\<close> is the
  type of rows before \<open>prepare_data\<close>.  \<open>time_time k\<close> is the value returned by the
  \<open>k\<close>-th call of \<open>time.time()\<close>.
\<close>

record ('r, 'i, 'p) env =
  AutoConfig_from_pretrained :: "string \<Rightarrow> error + config"
  MODEL_FOR_SPEECH_SEQ_2_SEQ_MAPPING :: "string list"
  AutoModelForSpeechSeq2Seq_from_pretrained :: "string \<Rightarrow> int \<Rightarrow> error + ('i, 'p) model"
  AutoModelForCTC_from_pretrained :: "string \<Rightarrow> int \<Rightarrow> error + ('i, 'p) model"
  AutoProcessor_from_pretrained :: "string \<Rightarrow> error + ('i, 'p) processor"
  to_device :: "'i \<Rightarrow> int \<Rightarrow> string \<Rightarrow> error + 'i"
  load_data :: "args \<Rightarrow> error + 'r list"
  prepare_data :: "'r list \<Rightarrow> error + sample list"
  normalizer :: "string \<Rightarrow> string"
  write_manifest ::
    "string list \<Rightarrow> string list \<Rightarrow> string \<Rightarrow> string \<Rightarrow> string \<Rightarrow> string \<Rightarrow>
     float list \<Rightarrow> float list \<Rightarrow> error + string"
  wer_compute :: "string list \<Rightarrow> string list \<Rightarrow> error + float"
  abspath :: "string \<Rightarrow> string"
  time_time :: "nat \<Rightarrow> float"


section \<open>The function \<open>main\<close>\<close>

subsection \<open>Loading (lines 15 to 26)\<close>

definition make_gen_kwargs :: "('i, 'p) model \<Rightarrow> error + gen_kwargs option" where
  \<comment> \<open>\<open>gen_kwargs\<close> is only bound when the model can generate; \<open>getattr\<close> without a default
      raises when the attribute is missing\<close>
  "make_gen_kwargs m =
     (if can_generate m then
        (case is_multilingual m of
           None \<Rightarrow> Inl AttributeError
         | Some multilingual \<Rightarrow>
             Inr (Some (if multilingual
                        then \<lparr>max_new_tokens = 256, language = Some ''en'', task = Some ''transcribe''\<rparr>
                        else \<lparr>max_new_tokens = 256, language = None, task = None\<rparr>)))
      else Inr None)"

definition load_model ::
  "('r, 'i, 'p) env \<Rightarrow> args \<Rightarrow>
   error + (('i, 'p) model \<times> ('i, 'p) processor \<times> string \<times> gen_kwargs option)" where
  "load_model env a =
     (case AutoConfig_from_pretrained env (model_id a) of
        Inl e \<Rightarrow> Inl e
      | Inr config \<Rightarrow>
          let cls_model_from_pretrained =
                (if config_class config \<in> set (MODEL_FOR_SPEECH_SEQ_2_SEQ_MAPPING env)
                 then AutoModelForSpeechSeq2Seq_from_pretrained env
                 else AutoModelForCTC_from_pretrained env)
          in (case cls_model_from_pretrained (model_id a) (device a) of
                Inl e \<Rightarrow> Inl e
              | Inr m \<Rightarrow>
                  (case AutoProcessor_from_pretrained env (model_id a) of
                     Inl e \<Rightarrow> Inl e
                   | Inr pr \<Rightarrow>
                       (case model_input_names pr of
                          [] \<Rightarrow> Inl IndexError
                        | model_input_name # _ \<Rightarrow>
                            (case make_gen_kwargs m of
                               Inl e \<Rightarrow> Inl e
                             | Inr gk \<Rightarrow> Inr (m, pr, model_input_name, gk))))))"

subsection \<open>Subsampling (lines 30 to 32)\<close>

text \<open>What the run prints and writes, in order.\<close>

datatype event =
    Print_subsampling int
  | Manifest_written string columns
  | Print_results_saved string
  | Print_summary float float

definition subsample :: "args \<Rightarrow> 'r list \<Rightarrow> event list \<times> 'r list" where
  \<comment> \<open>\<open>dataset.take(n)\<close> keeps the first \<open>n\<close> rows\<close>
  "subsample a ds =
     (case max_eval_samples a of
        None \<Rightarrow> ([], ds)
      | Some n \<Rightarrow> if 0 < n then ([Print_subsampling n], take (nat n) ds) else ([], ds))"

subsection \<open>The closure \<open>benchmark\<close> (lines 36 to 84)\<close>

definition long_form_kwargs :: processor_kwargs where
  \<comment> \<open>the call of step 1.1\<close>
  "long_form_kwargs =
     \<lparr>sampling_rate = 16000, truncation = Some False, padding = Some ''longest'',
      return_tensors = ''pt'', return_attention_mask = Some True\<rparr>"

definition standard_kwargs :: processor_kwargs where
  \<comment> \<open>the call of step 1.2\<close>
  "standard_kwargs =
     \<lparr>sampling_rate = 16000, truncation = None, padding = None,
      return_tensors = ''pt'', return_attention_mask = None\<rparr>"

definition preprocessing_kwargs ::
  "('i, 'p) model \<Rightarrow> ('i, 'p) processor \<Rightarrow> audio list \<Rightarrow> error + processor_kwargs" where
  \<comment> \<open>the condition of line 45; \<open>or\<close> evaluates its right operand only when the left one is
      false, \<open>audios[0]\<close> raises on an empty batch, and the attribute \<open>n_samples\<close> may be
      missing\<close>
  "preprocessing_kwargs m pr audios =
     (if \<not> can_generate m then Inr long_form_kwargs
      else (case audios of
              [] \<Rightarrow> Inl IndexError
            | a0 # _ \<Rightarrow>
                (case n_samples pr of
                   None \<Rightarrow> Inl AttributeError
                 | Some n \<Rightarrow> Inr (if n < length a0 then long_form_kwargs else standard_kwargs))))"

definition model_inference ::
  "('i, 'p) model \<Rightarrow> gen_kwargs option \<Rightarrow> 'i \<Rightarrow> error + 'p" where
  \<comment> \<open>step 2\<close>
  "model_inference m gk inputs =
     (if can_generate m then
        (case gk of None \<Rightarrow> Inl NameError | Some g \<Rightarrow> generate m inputs g)
      else forward_argmax m inputs)"

definition benchmark ::
  "('r, 'i, 'p) env \<Rightarrow> args \<Rightarrow> ('i, 'p) model \<Rightarrow> ('i, 'p) processor \<Rightarrow> string \<Rightarrow>
   gen_kwargs option \<Rightarrow> nat \<Rightarrow> sample list \<Rightarrow> error + columns" where
  \<comment> \<open>\<open>k\<close>: the number of calls of \<open>time.time()\<close> made before this call of \<open>benchmark\<close>\<close>
  "benchmark env a m pr model_input_name gk k batch =
     (let audios = map audio batch;
          minibatch_size = length audios;
          start_time = time_time env k
      in case preprocessing_kwargs m pr audios of
           Inl e \<Rightarrow> Inl e
         | Inr kwargs \<Rightarrow>
        (case call pr audios kwargs of
           Inl e \<Rightarrow> Inl e
         | Inr inputs0 \<Rightarrow>
        (case to_device env inputs0 (device a) model_input_name of
           Inl e \<Rightarrow> Inl e
         | Inr inputs \<Rightarrow>
        (case model_inference m gk inputs of
           Inl e \<Rightarrow> Inl e
         | Inr pred_ids \<Rightarrow>
        (case batch_decode pr pred_ids of
           Inl e \<Rightarrow> Inl e
         | Inr pred_text \<Rightarrow>
            let runtime = fsub (time_time env (Suc k)) start_time
            in (case fdiv runtime (of_nat minibatch_size) of
                  Inl e \<Rightarrow> Inl e
                | Inr per_sample \<Rightarrow>
                    Inr \<lparr>audio_length_s = map sample.audio_length_s batch,
                         transcription_time_s = replicate minibatch_size per_sample,
                         predictions = map (normalizer env) pred_text,
                         references = map norm_text batch\<rparr>))))))"

subsection \<open>The batched map (lines 86 to 88)\<close>

text \<open>
  \<open>dataset.map(benchmark, batch_size=n, batched=True, remove_columns=["audio"])\<close> of the
  datasets library: the rows are cut into consecutive batches of \<open>n\<close> rows (the last one
  may be shorter; a batch size that is not positive gives one batch with all rows), the
  function is applied to each batch in order, and the returned columns are cut back into
  rows.  The library refuses a returned batch whose columns differ in length.  A dataset
  is a list of rows here: a streaming dataset that raises while it is iterated is a
  failure of the call that produced it.
\<close>

function batches :: "nat \<Rightarrow> 'a list \<Rightarrow> 'a list list" where
  "batches n xs =
     (if xs = [] then []
      else if n = 0 then [xs]
      else take n xs # batches n (drop n xs))"
  by pat_completeness auto
termination
  by (relation "measure (\<lambda>(n, xs). length xs)") auto

declare batches.simps [simp del]

definition rows_of :: "columns \<Rightarrow> error + result list" where
  "rows_of c =
     (if length (transcription_time_s c) = length (audio_length_s c)
         \<and> length (predictions c) = length (audio_length_s c)
         \<and> length (references c) = length (audio_length_s c)
      then Inr (map (\<lambda>(al, tt, p, r).
                      \<lparr>audio_length_s = al, transcription_time_s = tt,
                       predictions = p, references = r\<rparr>)
                    (zip (audio_length_s c)
                      (zip (transcription_time_s c) (zip (predictions c) (references c)))))
      else Inl (LibraryError ''Column lengths mismatch''))"

fun map_batches ::
  "(nat \<Rightarrow> sample list \<Rightarrow> error + columns) \<Rightarrow> nat \<Rightarrow> sample list list \<Rightarrow> error + result list" where
  "map_batches f k [] = Inr []"
| "map_batches f k (b # bs) =
     (case f k b of
        Inl e \<Rightarrow> Inl e
      | Inr c \<Rightarrow>
          (case rows_of c of
             Inl e \<Rightarrow> Inl e
           | Inr rows \<Rightarrow>
               (case map_batches f (k + 2) bs of
                  Inl e \<Rightarrow> Inl e
                | Inr rest \<Rightarrow> Inr (rows @ rest))))"

definition dataset_map ::
  "(nat \<Rightarrow> sample list \<Rightarrow> error + columns) \<Rightarrow> int \<Rightarrow> sample list \<Rightarrow> error + result list" where
  "dataset_map f n ds = map_batches f 0 (batches (nat n) ds)"

subsection \<open>The result loop (lines 90 to 99)\<close>

definition empty_results :: columns where
  "empty_results =
     \<lparr>audio_length_s = [], transcription_time_s = [], predictions = [], references = []\<rparr>"

definition append_result :: "columns \<Rightarrow> result \<Rightarrow> columns" where
  \<comment> \<open>the inner loop: \<open>all_results[key].append(result[key])\<close> for each of the four keys\<close>
  "append_result all_results r =
     \<lparr>audio_length_s = audio_length_s all_results @ [audio_length_s r],
      transcription_time_s = transcription_time_s all_results @ [transcription_time_s r],
      predictions = predictions all_results @ [predictions r],
      references = references all_results @ [references r]\<rparr>"

definition collect :: "result list \<Rightarrow> columns" where
  "collect rs = foldl append_result empty_results rs"

subsection \<open>Manifest and metrics (lines 101 to 119)\<close>

definition rtfx_of :: "float list \<Rightarrow> float list \<Rightarrow> error + float" where
  \<comment> \<open>line 118\<close>
  "rtfx_of audio_lengths transcription_times =
     (case fdiv (py_sum audio_lengths) (py_sum transcription_times) of
        Inl e \<Rightarrow> Inl e
      | Inr q \<Rightarrow> Inr (py_round2 q))"

definition report :: "('r, 'i, 'p) env \<Rightarrow> args \<Rightarrow> columns \<Rightarrow> event list \<times> (error + unit)" where
  "report env a all_results =
     (case write_manifest env (references all_results) (predictions all_results)
             (model_id a) (dataset_path a) (dataset a) (split a)
             (audio_length_s all_results) (transcription_time_s all_results) of
        Inl e \<Rightarrow> ([], Inl e)
      | Inr manifest_path \<Rightarrow>
          let out = [Manifest_written manifest_path all_results,
                     Print_results_saved (abspath env manifest_path)]
          in (case wer_compute env (references all_results) (predictions all_results) of
                Inl e \<Rightarrow> (out, Inl e)
              | Inr w \<Rightarrow>
                  let wer = py_round2 (fmul 100 w)
                  in (case rtfx_of (audio_length_s all_results)
                              (transcription_time_s all_results) of
                        Inl e \<Rightarrow> (out, Inl e)
                      | Inr rtfx \<Rightarrow> (out @ [Print_summary wer rtfx], Inr ()))))"

subsection \<open>\<open>main\<close>\<close>

definition main :: "('r, 'i, 'p) env \<Rightarrow> args \<Rightarrow> event list \<times> (error + unit)" where
  "main env a =
     (case load_model env a of
        Inl e \<Rightarrow> ([], Inl e)
      | Inr (m, pr, model_input_name, gk) \<Rightarrow>
     (case load_data env a of
        Inl e \<Rightarrow> ([], Inl e)
      | Inr ds0 \<Rightarrow>
          let (out, ds1) = subsample a ds0
          in (case prepare_data env ds1 of
                Inl e \<Rightarrow> (out, Inl e)
              | Inr ds \<Rightarrow>
             (case dataset_map (benchmark env a m pr model_input_name gk) (batch_size a) ds of
                Inl e \<Rightarrow> (out, Inl e)
              | Inr mapped \<Rightarrow>
                  let (out', r) = report env a (collect mapped)
                  in (out @ out', r)))))"

section \<open>The command line (lines 122 to 177)\<close>

text \<open>
  The part of \<open>argparse\<close> that the script uses (CPython 3.11): long options that take one
  value or none, abbreviation by unique prefix, \<open>--opt=value\<close>, and the help option that
  \<open>ArgumentParser()\<close> adds.  \<open>parse_args\<close> returns \<open>None\<close> when argparse ends the process
  itself (usage error or help), so that \<open>main\<close> is not called.
\<close>

datatype py_value = VStr string | VInt int | VBool bool | VNone

datatype arg_type = Type_str | Type_int

datatype action_kind = Store arg_type | Store_false | Help

record action_spec =
  option_strings :: "string list"
  dest :: "string option"
  kind :: action_kind
  default :: py_value
  required :: bool

record parser =
  actions :: "action_spec list"
  parser_defaults :: "(string \<times> py_value) list"

type_synonym namespace = "string \<rightharpoonup> py_value"

definition ArgumentParser :: parser where
  "ArgumentParser =
     \<lparr>actions = [\<lparr>option_strings = [''-h'', ''--help''], dest = None, kind = Help,
                   default = VNone, required = False\<rparr>],
      parser_defaults = []\<rparr>"

definition add_argument :: "action_spec \<Rightarrow> parser \<Rightarrow> parser" where
  "add_argument spec p = p\<lparr>actions := actions p @ [spec]\<rparr>"

definition set_defaults :: "(string \<times> py_value) list \<Rightarrow> parser \<Rightarrow> parser" where
  \<comment> \<open>updates the parser's defaults and the default of every action with such a \<open>dest\<close>\<close>
  "set_defaults kwargs p =
     \<lparr>actions =
        map (\<lambda>spec. case dest spec of
                       None \<Rightarrow> spec
                     | Some d \<Rightarrow> (case map_of kwargs d of
                                    None \<Rightarrow> spec
                                  | Some v \<Rightarrow> spec\<lparr>default := v\<rparr>))
            (actions p),
      parser_defaults = filter (\<lambda>(d, v). map_of kwargs d = None) (parser_defaults p) @ kwargs\<rparr>"

datatype token_class = Positional | Optional action_spec "string option" | Unrecognized

definition negative_number :: "string \<Rightarrow> bool" where
  \<comment> \<open>\<open>^-\d+$|^-\d*\.\d+$\<close>\<close>
  "negative_number t =
     (case t of
        [] \<Rightarrow> False
      | c # r \<Rightarrow>
          c = CHR ''-'' \<and>
          (let is_digit = (\<lambda>d. d \<in> set ''0123456789'');
               ds = takeWhile is_digit r;
               rest = dropWhile is_digit r
           in (ds \<noteq> [] \<and> rest = []) \<or>
              (case rest of
                 [] \<Rightarrow> False
               | pt # fr \<Rightarrow> pt = CHR ''.'' \<and> fr \<noteq> [] \<and> list_all is_digit fr)))"

definition find_option :: "parser \<Rightarrow> string \<Rightarrow> action_spec option" where
  \<comment> \<open>the action registered under exactly this option string\<close>
  "find_option p s = find (\<lambda>spec. s \<in> set (option_strings spec)) (actions p)"

definition split_explicit :: "string \<Rightarrow> string \<times> string option" where
  \<comment> \<open>\<open>s.split('=', 1)\<close> when \<open>s\<close> contains \<open>=\<close>\<close>
  "split_explicit t =
     (if CHR ''='' \<in> set t
      then (takeWhile (\<lambda>c. c \<noteq> CHR ''='') t, Some (tl (dropWhile (\<lambda>c. c \<noteq> CHR ''='') t)))
      else (t, None))"

definition get_option_tuples :: "parser \<Rightarrow> string \<Rightarrow> (action_spec \<times> string option) list" where
  \<comment> \<open>the options that \<open>t\<close> abbreviates; \<open>t\<close> has at least two characters and starts
      with \<open>-\<close>\<close>
  "get_option_tuples p t =
     (if t ! 1 = CHR ''-'' then
        (let (option_prefix, explicit_arg) = split_explicit t
         in concat (map (\<lambda>spec. map (\<lambda>s. (spec, explicit_arg))
                                   (filter (prefix option_prefix) (option_strings spec)))
                        (actions p)))
      else
        concat (map (\<lambda>spec. concat (map (\<lambda>s. if s = take 2 t then [(spec, Some (drop 2 t))]
                                               else if prefix t s then [(spec, None)]
                                               else [])
                                        (option_strings spec)))
                    (actions p)))"

definition classify :: "parser \<Rightarrow> string \<Rightarrow> token_class" where
  "classify p t =
     (if t = [] \<or> hd t \<noteq> CHR ''-'' then Positional
      else (case find_option p t of
              Some spec \<Rightarrow> Optional spec None
            | None \<Rightarrow>
                if length t = 1 then Positional
                else (case (if CHR ''='' \<in> set t then find_option p (fst (split_explicit t))
                            else None) of
                        Some spec \<Rightarrow> Optional spec (snd (split_explicit t))
                      | None \<Rightarrow>
                          (case get_option_tuples p t of
                             [] \<Rightarrow> if negative_number t \<or> CHR '' '' \<in> set t
                                   then Positional else Unrecognized
                           | [(spec, explicit_arg)] \<Rightarrow> Optional spec explicit_arg
                           | _ # _ # _ \<Rightarrow> Unrecognized))))"

definition init_namespace :: "parser \<Rightarrow> namespace" where
  \<comment> \<open>every action's default under its \<open>dest\<close>, then the parser-level defaults, each only
      where the attribute is not yet set\<close>
  "init_namespace p =
     (let ns1 = foldl (\<lambda>ns spec. case dest spec of
                                    None \<Rightarrow> ns
                                  | Some d \<Rightarrow> if ns d = None then ns(d \<mapsto> default spec) else ns)
                      Map.empty (actions p)
      in foldl (\<lambda>ns (d, v). if ns d = None then ns(d \<mapsto> v) else ns) ns1 (parser_defaults p))"

definition convert :: "(string \<Rightarrow> int option) \<Rightarrow> arg_type \<Rightarrow> string \<Rightarrow> py_value option" where
  \<comment> \<open>\<open>type=str\<close> and \<open>type=int\<close>; \<open>py_int\<close> is the builtin \<open>int\<close> on strings\<close>
  "convert py_int ty s =
     (case ty of Type_str \<Rightarrow> Some (VStr s) | Type_int \<Rightarrow> map_option VInt (py_int s))"

definition store ::
  "action_spec \<Rightarrow> py_value \<Rightarrow> namespace \<times> string list \<Rightarrow> namespace \<times> string list" where
  \<comment> \<open>sets the attribute and remembers that the action was seen\<close>
  "store spec v st =
     (case dest spec of
        None \<Rightarrow> st
      | Some d \<Rightarrow> ((fst st)(d \<mapsto> v), d # snd st))"

fun consume ::
  "parser \<Rightarrow> (string \<Rightarrow> int option) \<Rightarrow> string list \<Rightarrow> namespace \<times> string list \<Rightarrow>
   (namespace \<times> string list) option" where
  "consume p py_int [] st = Some st"
| "consume p py_int (t # ts) st =
     (case classify p t of
        Positional \<Rightarrow> None
      | Unrecognized \<Rightarrow> None
      | Optional spec explicit_arg \<Rightarrow>
          (case kind spec of
             Help \<Rightarrow> None
           | Store_false \<Rightarrow>
               (case explicit_arg of
                  Some _ \<Rightarrow> None
                | None \<Rightarrow> consume p py_int ts (store spec (VBool False) st))
           | Store ty \<Rightarrow>
               (case explicit_arg of
                  Some s \<Rightarrow>
                    (case convert py_int ty s of
                       None \<Rightarrow> None
                     | Some v \<Rightarrow> consume p py_int ts (store spec v st))
                | None \<Rightarrow>
                    (case ts of
                       [] \<Rightarrow> None
                     | s # ts' \<Rightarrow>
                         if classify p s = Positional
                         then (case convert py_int ty s of
                                 None \<Rightarrow> None
                               | Some v \<Rightarrow> consume p py_int ts' (store spec v st))
                         else None))))"

definition parse_args :: "parser \<Rightarrow> (string \<Rightarrow> int option) \<Rightarrow> string list \<Rightarrow> namespace option" where
  "parse_args p py_int argv =
     (case consume p py_int argv (init_namespace p, []) of
        None \<Rightarrow> None
      | Some (ns, seen) \<Rightarrow>
          if list_all (\<lambda>spec. if required spec
                               then (case dest spec of None \<Rightarrow> False | Some d \<Rightarrow> d \<in> set seen)
                               else True)
                      (actions p)
          then Some ns else None)"

definition script_parser :: parser where
  \<comment> \<open>lines 123 to 173\<close>
  "script_parser =
     foldl (\<lambda>p spec. add_argument spec p) ArgumentParser
       [\<lparr>option_strings = [''--model_id''], dest = Some ''model_id'', kind = Store Type_str,
         default = VNone, required = True\<rparr>,
        \<lparr>option_strings = [''--dataset_path''], dest = Some ''dataset_path'', kind = Store Type_str,
         default = VStr ''esb/datasets'', required = False\<rparr>,
        \<lparr>option_strings = [''--dataset''], dest = Some ''dataset'', kind = Store Type_str,
         default = VNone, required = True\<rparr>,
        \<lparr>option_strings = [''--split''], dest = Some ''split'', kind = Store Type_str,
         default = VStr ''test'', required = False\<rparr>,
        \<lparr>option_strings = [''--device''], dest = Some ''device'', kind = Store Type_int,
         default = VInt (- 1), required = False\<rparr>,
        \<lparr>option_strings = [''--batch_size''], dest = Some ''batch_size'', kind = Store Type_int,
         default = VInt 16, required = False\<rparr>,
        \<lparr>option_strings = [''--max_eval_samples''], dest = Some ''max_eval_samples'',
         kind = Store Type_int, default = VNone, required = False\<rparr>,
        \<lparr>option_strings = [''--no-streaming''], dest = Some ''streaming'', kind = Store_false,
         default = VBool True, required = False\<rparr>]"

definition attr_str :: "namespace \<Rightarrow> string \<Rightarrow> string option" where
  "attr_str ns k = (case ns k of Some (VStr s) \<Rightarrow> Some s | _ \<Rightarrow> None)"

definition attr_int :: "namespace \<Rightarrow> string \<Rightarrow> int option" where
  "attr_int ns k = (case ns k of Some (VInt i) \<Rightarrow> Some i | _ \<Rightarrow> None)"

definition attr_opt_int :: "namespace \<Rightarrow> string \<Rightarrow> int option option" where
  "attr_opt_int ns k =
     (case ns k of Some (VInt i) \<Rightarrow> Some (Some i) | Some VNone \<Rightarrow> Some None | _ \<Rightarrow> None)"

definition attr_bool :: "namespace \<Rightarrow> string \<Rightarrow> bool option" where
  "attr_bool ns k = (case ns k of Some (VBool b) \<Rightarrow> Some b | _ \<Rightarrow> None)"

definition args_of :: "namespace \<Rightarrow> args option" where
  \<comment> \<open>the attributes that \<open>main\<close> reads from \<open>args\<close>\<close>
  "args_of ns =
     do {
       m \<leftarrow> attr_str ns ''model_id'';
       dp \<leftarrow> attr_str ns ''dataset_path'';
       d \<leftarrow> attr_str ns ''dataset'';
       sp \<leftarrow> attr_str ns ''split'';
       dev \<leftarrow> attr_int ns ''device'';
       bs \<leftarrow> attr_int ns ''batch_size'';
       mes \<leftarrow> attr_opt_int ns ''max_eval_samples'';
       st \<leftarrow> attr_bool ns ''streaming'';
       Some \<lparr>model_id = m, dataset_path = dp, dataset = d, split = sp, device = dev,
             batch_size = bs, max_eval_samples = mes, streaming = st\<rparr>
     }"

definition script ::
  "('r, 'i, 'p) env \<Rightarrow> (string \<Rightarrow> int option) \<Rightarrow> string list \<Rightarrow>
   (event list \<times> (error + unit)) option" where
  \<comment> \<open>lines 174 to 177: \<open>set_defaults\<close> is called on the parser after \<open>parse_args\<close> has
      returned \<open>args\<close>\<close>
  "script env py_int argv =
     (case parse_args script_parser py_int argv of
        None \<Rightarrow> None
      | Some ns \<Rightarrow>
          let parser' = set_defaults [(''streaming'', VBool False)] script_parser
          in (case args_of ns of
                None \<Rightarrow> None
              | Some a \<Rightarrow> Some (main env a)))"


definition selects_streaming :: "string \<Rightarrow> bool" where
  \<comment> \<open>the token is \<open>--no-streaming\<close> or an abbreviation that argparse resolves to it\<close>
  "selects_streaming t =
     (case classify script_parser t of
        Optional spec _ \<Rightarrow> dest spec = Some ''streaming''
      | _ \<Rightarrow> False)"

section \<open>A small concrete environment\<close>

text \<open>
  Concrete models, processors and libraries on which the functions above can be
  evaluated.  Preprocessed inputs are the audio list itself, predicted ids are the
  decoded texts.
\<close>

definition example_ctc_model :: "(audio list, string list) model" where
  "example_ctc_model =
     \<lparr>can_generate = False, is_multilingual = None,
      generate = (\<lambda>inputs g. Inl (LibraryError ''generate'')),
      forward_argmax = (\<lambda>inputs. Inr (map (\<lambda>a. ''hello'') inputs))\<rparr>"

definition example_whisper_model :: "(audio list, string list) model" where
  "example_whisper_model =
     \<lparr>can_generate = True, is_multilingual = Some True,
      generate = (\<lambda>inputs g. Inr (map (\<lambda>a. ''hello'') inputs)),
      forward_argmax = (\<lambda>inputs. Inl (LibraryError ''forward''))\<rparr>"

definition example_processor :: "nat option \<Rightarrow> (audio list, string list) processor" where
  "example_processor n =
     \<lparr>model_input_names = [''input_features''], n_samples = n,
      call = (\<lambda>audios kwargs. Inr audios), batch_decode = Inr\<rparr>"

definition example_sample :: "nat \<Rightarrow> sample" where
  \<comment> \<open>a row whose waveform has \<open>n\<close> samples and lasts \<open>n\<close> seconds\<close>
  "example_sample n = \<lparr>audio = replicate n 0, audio_length_s = of_nat n, norm_text = ''hello''\<rparr>"

definition example_env :: "sample list \<Rightarrow> (nat \<Rightarrow> float) \<Rightarrow> (sample, audio list, string list) env" where
  \<comment> \<open>the model id \<open>whisper\<close> loads the generative model with \<open>n_samples = 2\<close>, every other
      id the CTC model; the dataset and the clock are given\<close>
  "example_env rows clock =
     \<lparr>AutoConfig_from_pretrained = (\<lambda>name. Inr \<lparr>config_class = name\<rparr>),
      MODEL_FOR_SPEECH_SEQ_2_SEQ_MAPPING = [''whisper''],
      AutoModelForSpeechSeq2Seq_from_pretrained = (\<lambda>name dev. Inr example_whisper_model),
      AutoModelForCTC_from_pretrained = (\<lambda>name dev. Inr example_ctc_model),
      AutoProcessor_from_pretrained =
        (\<lambda>name. Inr (example_processor (if name = ''whisper'' then Some 2 else None))),
      to_device = (\<lambda>inputs dev name. Inr inputs),
      load_data = (\<lambda>a. Inr rows),
      prepare_data = Inr,
      normalizer = id,
      write_manifest = (\<lambda>refs preds m dp d sp al tt. Inr ''manifest.jsonl''),
      wer_compute = (\<lambda>refs preds. Inr 0),
      abspath = id,
      time_time = clock\<rparr>"

definition example_args :: "string \<Rightarrow> int option \<Rightarrow> args" where
  "example_args name cap =
     \<lparr>model_id = name, dataset_path = ''esb/datasets'', dataset = ''librispeech'',
      split = ''test'', device = - 1, batch_size = 16, max_eval_samples = cap,
      streaming = True\<rparr>"

definition example_clock :: "nat \<Rightarrow> float" where
  \<comment> \<open>the first reading is 0, every later one is the float 0.9\<close>
  "example_clock k = (if k = 0 then 0 else 8106479329266893 / 9007199254740992)"



definition example_run_env :: "(sample, audio list, string list) env" where
  \<comment> \<open>two samples of 1 and 2 seconds; the \<open>k\<close>-th clock reading is \<open>k\<close>\<close>
  "example_run_env = example_env [example_sample 1, example_sample 2] of_nat"

definition example_run_args :: args where
  "example_run_args = (example_args ''m'' None)\<lparr>batch_size := 1\<rparr>"

definition example_run_out :: "event list" where
  "example_run_out =
     [Manifest_written ''manifest.jsonl''
        \<lparr>audio_length_s = [1, 2], transcription_time_s = [1, 1],
         predictions = [''hello'', ''hello''], references = [''hello'', ''hello'']\<rparr>,
      Print_results_saved ''manifest.jsonl'',
      Print_summary 0 (3 / 2)]"

definition example_int :: "string \<Rightarrow> int option" where
  \<comment> \<open>\<open>int\<close> on the two strings that the examples convert\<close>
  "example_int s = (if s = ''1'' then Some 1 else if s = ''16'' then Some 16 else None)"

section \<open>Facts about the float model\<close>

lemma pow2_powi: "pow2 e = 2 powi e"
  by (simp add: pow2_def power_int_def field_simps)

lemma pow2_pos: "0 < pow2 e"
  by (simp add: pow2_powi)

lemma pow2_add: "pow2 (a + b) = pow2 a * pow2 b"
  by (simp add: pow2_powi power_int_add)

lemma pow2_mono: "a \<le> b \<Longrightarrow> pow2 a \<le> pow2 b"
  by (simp add: pow2_powi power_int_increasing)

lemma pow2_strict_mono: "a < b \<Longrightarrow> pow2 a < pow2 b"
  by (simp add: pow2_powi power_int_strict_increasing)

lemma pow2_less_iff: "pow2 a < pow2 b \<longleftrightarrow> a < b"
  by (metis pow2_mono pow2_strict_mono not_less)
  
lemma pow2_le_iff: "pow2 a \<le> pow2 b \<longleftrightarrow> a \<le> b"
  by (metis pow2_mono pow2_strict_mono not_less)

lemma bitlen_rat_bounds:
  assumes "0 < p"
  shows "pow2 (bitlen p - 1) \<le> of_int p" "(of_int p :: rat) < pow2 (bitlen p)"
proof -
  from bitlen_bounds[OF assms] have a: "2 ^ nat (bitlen p - 1) \<le> p" and b: "p < 2 ^ nat (bitlen p)" by auto
  have pos: "0 < bitlen p" using assms bitlen_eq_zero_iff[of p] bitlen_nonneg[of p] by linarith
  have "(of_int (2 ^ nat (bitlen p - 1)) :: rat) \<le> of_int p" using a by (simp only: of_int_le_iff)
  then show "pow2 (bitlen p - 1) \<le> of_int p" using pos by (simp add: pow2_def)
  have "(of_int p :: rat) < of_int (2 ^ nat (bitlen p))" using b by (simp only: of_int_less_iff)
  then show "(of_int p :: rat) < pow2 (bitlen p)" using pos by (simp add: pow2_def)
qed

lemma ilog2_bounds:
  assumes "0 < x"
  shows "pow2 (ilog2 x) \<le> x \<and> x < pow2 (ilog2 x + 1)"
proof -
  obtain p q where pq: "quotient_of x = (p, q)" by (cases "quotient_of x")
  have q: "0 < q" using quotient_of_denom_pos[OF pq] .
  have x: "x = of_int p / of_int q" using quotient_of_div[OF pq] .
  have p: "0 < p" using assms q x by (simp add: zero_less_divide_iff)
  let ?d = "bitlen p - bitlen q"
  note bp = bitlen_rat_bounds[OF p] and bq = bitlen_rat_bounds[OF q]
  have qpos: "(0::rat) < of_int q" using q by simp
  have up: "x < pow2 (?d + 1)"
  proof -
    have "of_int p < pow2 (bitlen p)" by (rule bp)
    also have "pow2 (bitlen p) = pow2 (?d + 1) * pow2 (bitlen q - 1)"
      by (simp add: pow2_add[symmetric])
    also have "\<dots> \<le> pow2 (?d + 1) * of_int q"
      using bq(1) pow2_pos[of "?d + 1"] by simp
    finally show ?thesis using qpos by (simp add: x pos_divide_less_eq)
  qed
  have lo: "pow2 (?d - 1) \<le> x"
  proof -
    have "pow2 (?d - 1) * of_int q \<le> pow2 (?d - 1) * pow2 (bitlen q)"
      using bq(2) pow2_pos[of "?d - 1"] by simp
    also have "\<dots> = pow2 (bitlen p - 1)" by (simp add: pow2_add[symmetric])
    also have "\<dots> \<le> of_int p" by (rule bp)
    finally show ?thesis using qpos by (simp add: x pos_le_divide_eq)
  qed
  show ?thesis
  proof (cases "pow2 ?d \<le> x")
    case True
    then show ?thesis using up by (simp add: ilog2_def pq)
  next
    case False
    then show ?thesis using lo by (simp add: ilog2_def pq)
  qed
qed

lemma ilog2_unique:
  assumes "pow2 e \<le> x" "x < pow2 (e + 1)"
  shows "ilog2 x = e"
proof -
  have x: "0 < x" using assms(1) pow2_pos[of e] by linarith
  from ilog2_bounds[OF x] have a: "pow2 (ilog2 x) \<le> x" and b: "x < pow2 (ilog2 x + 1)" by auto
  have "pow2 e < pow2 (ilog2 x + 1)" using assms(1) b by linarith
  then have 1: "e < ilog2 x + 1" by (simp add: pow2_less_iff)
  have "pow2 (ilog2 x) < pow2 (e + 1)" using assms(2) a by linarith
  then have 2: "ilog2 x < e + 1" by (simp add: pow2_less_iff)
  from 1 2 show ?thesis by linarith
qed
lemma round_half_even_of_int: "round_half_even (of_int n) = n"
  by (simp add: round_half_even_def)

lemma round_half_even_range:
  "round_half_even x = \<lfloor>x\<rfloor> \<or> round_half_even x = \<lfloor>x\<rfloor> + 1"
  by (simp add: round_half_even_def Let_def)

lemma round_half_even_mono:
  assumes "x \<le> y"
  shows "round_half_even x \<le> round_half_even y"
proof -
  have fm: "\<lfloor>x\<rfloor> \<le> \<lfloor>y\<rfloor>" using assms by (rule floor_mono)
  show ?thesis
  proof (cases "\<lfloor>x\<rfloor> = \<lfloor>y\<rfloor>")
    case True
    then show ?thesis using assms unfolding round_half_even_def Let_def by auto
  next
    case False
    then have "\<lfloor>x\<rfloor> + 1 \<le> \<lfloor>y\<rfloor>" using fm by linarith
    moreover have "round_half_even x \<le> \<lfloor>x\<rfloor> + 1"
      using round_half_even_range[of x] by linarith
    moreover have "\<lfloor>y\<rfloor> \<le> round_half_even y"
      using round_half_even_range[of y] by linarith
    ultimately show ?thesis by linarith
  qed
qed

lemma ilog2_mono:
  assumes "0 < x" "x \<le> y"
  shows "ilog2 x \<le> ilog2 y"
proof -
  have y: "0 < y" using assms by linarith
  have "pow2 (ilog2 x) \<le> x" using ilog2_bounds[OF assms(1)] by simp
  also have "x \<le> y" by (rule assms)
  also have "y < pow2 (ilog2 y + 1)" using ilog2_bounds[OF y] by simp
  finally have "ilog2 x < ilog2 y + 1" by (simp add: pow2_less_iff)
  then show ?thesis by simp
qed

lemma ulp_pos: "0 < ulp x"
  by (simp add: ulp_def pow2_pos)

lemma fl_nonneg:
  assumes "0 \<le> x"
  shows "0 \<le> fl x"
proof (cases "x = 0")
  case True
  then show ?thesis by (simp add: fl_def)
next
  case False
  have "0 \<le> x / ulp x" using assms ulp_pos[of x] by simp
  then have "round_half_even 0 \<le> round_half_even (x / ulp x)" by (rule round_half_even_mono)
  then have "0 \<le> round_half_even (x / ulp x)" by (simp add: round_half_even_def)
  then show ?thesis using False ulp_pos[of x] by (simp add: fl_def)
qed

lemma fl_mono_pos:
  assumes x: "0 < x" and xy: "x \<le> y"
  shows "fl x \<le> fl y"
proof -
  have y: "0 < y" using assms by linarith
  define ex where "ex = max (ilog2 x) (- 1022)"
  define ey where "ey = max (ilog2 y) (- 1022)"
  have ux: "ulp x = pow2 (ex - 52)" using x by (simp add: ulp_def ex_def)
  have uy: "ulp y = pow2 (ey - 52)" using y by (simp add: ulp_def ey_def)
  have flx: "fl x = of_int (round_half_even (x / pow2 (ex - 52))) * pow2 (ex - 52)"
    using x by (simp add: fl_def ux)
  have fly: "fl y = of_int (round_half_even (y / pow2 (ey - 52))) * pow2 (ey - 52)"
    using y by (simp add: fl_def uy)
  have le: "ex \<le> ey" using ilog2_mono[OF x xy] by (simp add: ex_def ey_def)
  show ?thesis
  proof (cases "ex = ey")
    case True
    have "x / pow2 (ey - 52) \<le> y / pow2 (ey - 52)"
      using xy pow2_pos[of "ey - 52"] by (simp add: divide_right_mono)
    then have "round_half_even (x / pow2 (ey - 52)) \<le> round_half_even (y / pow2 (ey - 52))"
      by (rule round_half_even_mono)
    then show ?thesis using pow2_pos[of "ey - 52"] by (simp add: flx fly True)
  next
    case False
    then have lt: "ex < ey" using le by linarith
    then have eyl: "ey = ilog2 y" by (simp add: ex_def ey_def max_def split: if_splits)
    have "x < pow2 (ilog2 x + 1)" using ilog2_bounds[OF x] by simp
    also have "\<dots> \<le> pow2 (ex + 1)" by (rule pow2_mono) (simp add: ex_def)
    finally have xb: "x \<le> pow2 (ex + 1)" by simp
    have yb: "pow2 ey \<le> y" using ilog2_bounds[OF y] eyl by simp
    have p53: "pow2 (ex + 1) = of_int (2 ^ 53) * pow2 (ex - 52)"
    proof -
      have "ex + 1 = 53 + (ex - 52)" by linarith
      then have "pow2 (ex + 1) = pow2 (53 + (ex - 52))" by (rule arg_cong)
      also have "\<dots> = pow2 53 * pow2 (ex - 52)" by (rule pow2_add)
      finally show ?thesis by (simp add: pow2_def)
    qed
    have p52: "pow2 ey = of_int (2 ^ 52) * pow2 (ey - 52)"
    proof -
      have "ey = 52 + (ey - 52)" by linarith
      then have "pow2 ey = pow2 (52 + (ey - 52))" by (rule arg_cong)
      also have "\<dots> = pow2 52 * pow2 (ey - 52)" by (rule pow2_add)
      finally show ?thesis by (simp add: pow2_def)
    qed
    have "x / pow2 (ex - 52) \<le> of_int (2 ^ 53)"
      using xb pow2_pos[of "ex - 52"] by (simp add: p53 pos_divide_le_eq)
    then have "round_half_even (x / pow2 (ex - 52)) \<le> round_half_even (of_int (2 ^ 53))"
      by (rule round_half_even_mono)
    then have "round_half_even (x / pow2 (ex - 52)) \<le> 2 ^ 53"
      by (simp only: round_half_even_of_int)
    then have "(of_int (round_half_even (x / pow2 (ex - 52))) :: rat) \<le> of_int (2 ^ 53)"
      by (simp only: of_int_le_iff)
    then have "fl x \<le> of_int (2 ^ 53) * pow2 (ex - 52)"
      unfolding flx using pow2_pos[of "ex - 52"] by (simp only: mult_le_cancel_right_pos)
    then have a: "fl x \<le> pow2 (ex + 1)" by (simp only: p53)
    have "of_int (2 ^ 52) \<le> y / pow2 (ey - 52)"
      using yb pow2_pos[of "ey - 52"] by (simp add: p52 pos_le_divide_eq)
    then have "round_half_even (of_int (2 ^ 52)) \<le> round_half_even (y / pow2 (ey - 52))"
      by (rule round_half_even_mono)
    then have "2 ^ 52 \<le> round_half_even (y / pow2 (ey - 52))"
      by (simp only: round_half_even_of_int)
    then have "(of_int (2 ^ 52) :: rat) \<le> of_int (round_half_even (y / pow2 (ey - 52)))"
      by (simp only: of_int_le_iff)
    then have "of_int (2 ^ 52) * pow2 (ey - 52) \<le> fl y"
      unfolding fly using pow2_pos[of "ey - 52"] by (simp only: mult_le_cancel_right_pos)
    then have b: "pow2 ey \<le> fl y" by (simp only: p52)
    have "pow2 (ex + 1) \<le> pow2 ey" by (rule pow2_mono) (use lt in simp)
    with a b show ?thesis by linarith
  qed
qed

lemma fl_mono_nonneg:
  assumes "0 \<le> x" "x \<le> y"
  shows "fl x \<le> fl y"
proof (cases "x = 0")
  case True
  then show ?thesis using fl_nonneg[of y] assms by (simp add: fl_def)
next
  case False
  then show ?thesis using assms fl_mono_pos[of x y] by simp
qed

lemma ulp_eval:
  assumes "pow2 e \<le> \<bar>x\<bar>" "\<bar>x\<bar> < pow2 (e + 1)"
  shows "ulp x = pow2 (max e (- 1022) - 52)"
  using ilog2_unique[OF assms] by (simp add: ulp_def)

lemma fl_eval:
  assumes "pow2 e \<le> \<bar>x\<bar>" "\<bar>x\<bar> < pow2 (e + 1)"
  shows "fl x = of_int (round_half_even (x / pow2 (max e (- 1022) - 52))) * pow2 (max e (- 1022) - 52)"
proof -
  have "x \<noteq> 0" using assms(1) pow2_pos[of e] by auto
  then show ?thesis by (simp add: fl_def ulp_eval[OF assms])
qed

lemma round_half_even_cert:
  assumes "of_int n - 1 / 2 < x" "x < of_int n + 1 / 2"
  shows "round_half_even x = n"
proof -
  have "\<lfloor>x\<rfloor> = n \<or> \<lfloor>x\<rfloor> = n - 1" using assms by linarith
  then show ?thesis
  proof
    assume f: "\<lfloor>x\<rfloor> = n"
    then have "x - of_int \<lfloor>x\<rfloor> < 1 / 2" using assms by simp
    then show ?thesis by (simp add: round_half_even_def Let_def f)
  next
    assume f: "\<lfloor>x\<rfloor> = n - 1"
    then have "1 / 2 < x - of_int \<lfloor>x\<rfloor>" using assms by simp
    then show ?thesis by (simp add: round_half_even_def Let_def f)
  qed
qed

lemma fl_cert:
  assumes "pow2 e \<le> \<bar>x\<bar>" "\<bar>x\<bar> < pow2 (e + 1)" "- 1022 \<le> e"
    and "y = of_int n * pow2 (e - 52)"
    and "\<bar>x - y\<bar> < pow2 (e - 52) / 2"
  shows "fl x = y"
proof -
  let ?u = "pow2 (e - 52)"
  have u: "0 < ?u" by (rule pow2_pos)
  have m: "max e (- 1022) = e" using assms(3) by simp
  have "x / ?u - of_int n = (x - y) / ?u"
    using u by (simp add: assms(4) diff_divide_distrib)
  then have "\<bar>x / ?u - of_int n\<bar> = \<bar>x - y\<bar> / ?u"
    using u by (simp only: abs_divide abs_of_pos)
  also have "\<dots> < 1 / 2" using assms(5) u by (simp add: pos_divide_less_eq)
  finally have h: "\<bar>x / ?u - of_int n\<bar> < 1 / 2" .
  have "round_half_even (x / ?u) = n"
  proof (rule round_half_even_cert)
    show "of_int n - 1 / 2 < x / ?u" using h by linarith
    show "x / ?u < of_int n + 1 / 2" using h by linarith
  qed
  then show ?thesis using fl_eval[OF assms(1,2)] by (simp add: m assms(4))
qed

lemma round_half_even_error: "\<bar>of_int (round_half_even x) - x\<bar> \<le> 1 / 2"
proof -
  have b: "of_int \<lfloor>x\<rfloor> \<le> x" "x < of_int \<lfloor>x\<rfloor> + 1" by linarith+
  consider (lo) "x - of_int \<lfloor>x\<rfloor> < 1 / 2" | (hi) "1 / 2 < x - of_int \<lfloor>x\<rfloor>"
    | (tie) "x - of_int \<lfloor>x\<rfloor> = 1 / 2" by linarith
  then show ?thesis
  proof cases
    case lo
    then have "round_half_even x = \<lfloor>x\<rfloor>" by (simp add: round_half_even_def Let_def)
    then show ?thesis using b lo by simp
  next
    case hi
    then have "round_half_even x = \<lfloor>x\<rfloor> + 1" by (simp add: round_half_even_def Let_def)
    then show ?thesis using b hi by simp
  next
    case tie
    then have "round_half_even x = \<lfloor>x\<rfloor> \<or> round_half_even x = \<lfloor>x\<rfloor> + 1"
      by (simp add: round_half_even_def Let_def)
    then show ?thesis using b tie by auto
  qed
qed

lemma round_half_even_tie:
  assumes "x = of_int n + 1 / 2" "even n"
  shows "round_half_even x = n"
proof -
  have f: "\<lfloor>x\<rfloor> = n" using assms(1) by linarith
  have "x - of_int \<lfloor>x\<rfloor> = 1 / 2" using assms(1) f by simp
  then show ?thesis using assms(2) by (simp add: round_half_even_def Let_def f)
qed

lemma fl_tie:
  assumes "pow2 e \<le> \<bar>x\<bar>" "\<bar>x\<bar> < pow2 (e + 1)" "- 1022 \<le> e"
    and "y = of_int n * pow2 (e - 52)" "even n"
    and "x = y + pow2 (e - 52) / 2"
  shows "fl x = y"
proof -
  let ?u = "pow2 (e - 52)"
  have u: "0 < ?u" by (rule pow2_pos)
  have m: "max e (- 1022) = e" using assms(3) by simp
  have "x / ?u = of_int n + 1 / 2"
    using u by (simp add: assms(4,6) add_divide_distrib)
  then have "round_half_even (x / ?u) = n" using assms(5) by (rule round_half_even_tie)
  then show ?thesis using fl_eval[OF assms(1,2)] by (simp add: m assms(4))
qed

lemma fl_error:
  assumes "pow2 (- 1022) \<le> \<bar>x\<bar>"
  shows "\<bar>fl x - x\<bar> \<le> \<bar>x\<bar> / 2 ^ 53"
proof -
  have pos: "0 < \<bar>x\<bar>" using assms pow2_pos[of "- 1022"] by linarith
  define e where "e = ilog2 \<bar>x\<bar>"
  have b: "pow2 e \<le> \<bar>x\<bar>" "\<bar>x\<bar> < pow2 (e + 1)" using ilog2_bounds[OF pos] by (simp_all add: e_def)
  have "pow2 (- 1022) < pow2 (e + 1)" using assms b(2) by linarith
  then have e: "- 1022 \<le> e" by (simp add: pow2_less_iff)
  let ?u = "pow2 (e - 52)"
  have u: "0 < ?u" by (rule pow2_pos)
  have fl: "fl x = of_int (round_half_even (x / ?u)) * ?u"
    using fl_eval[OF b] e by (simp add: max_def)
  have "fl x - x = (of_int (round_half_even (x / ?u)) - x / ?u) * ?u"
    using u by (simp add: fl left_diff_distrib)
  then have "\<bar>fl x - x\<bar> = \<bar>of_int (round_half_even (x / ?u)) - x / ?u\<bar> * ?u"
    using u by (simp only: abs_mult abs_of_pos)
  also have "\<dots> \<le> 1 / 2 * ?u"
    using round_half_even_error[of "x / ?u"] u by (intro mult_right_mono) simp_all
  also have "1 / 2 * ?u = pow2 e / 2 ^ 53"
  proof -
    have "e = 52 + (e - 52)" by linarith
    then have "pow2 e = pow2 (52 + (e - 52))" by (rule arg_cong)
    also have "\<dots> = pow2 52 * ?u" by (rule pow2_add)
    finally show ?thesis by (simp add: pow2_def)
  qed
  also have "\<dots> \<le> \<bar>x\<bar> / 2 ^ 53" using b(1) by (simp add: divide_right_mono)
  finally show ?thesis .
qed

lemma round_half_even_nonneg: "0 \<le> x \<Longrightarrow> 0 \<le> round_half_even x"
  using round_half_even_mono[of 0 x] by (simp add: round_half_even_def)

lemma py_round2_mono:
  assumes "0 \<le> x" "x \<le> y"
  shows "py_round2 x \<le> py_round2 y"
proof -
  have "round_half_even (x * 100) \<le> round_half_even (y * 100)"
    using assms by (intro round_half_even_mono) simp
  moreover have "0 \<le> round_half_even (x * 100)"
    using assms by (intro round_half_even_nonneg) simp
  ultimately show ?thesis
    unfolding py_round2_def by (intro fl_mono_nonneg) (simp_all add: divide_right_mono)
qed

text \<open>Some floats, each with its exponent and integer significand.\<close>

lemma fl_10: "fl 10 = 10"
  by (rule fl_cert[where e = 3 and n = 5629499534213120]) (simp_all add: pow2_def)

lemma fl_3: "fl 3 = 3"
  by (rule fl_cert[where e = 1 and n = 6755399441055744]) (simp_all add: pow2_def)

lemma fl_769_256: "fl (769 / 256) = 769 / 256"
  by (rule fl_cert[where e = 1 and n = 6764195534077952]) (simp_all add: pow2_def)

lemma fl_10_3: "fl (10 / 3) = 7505999378950827 / 2251799813685248"
  by (rule fl_cert[where e = 1 and n = 7505999378950827]) (simp_all add: pow2_def)

lemma fl_2560_769: "fl (2560 / 769) = 7496238651539967 / 2251799813685248"
  by (rule fl_cert[where e = 1 and n = 7496238651539967]) (simp_all add: pow2_def)

lemma fl_333_100: "fl (333 / 100) = 1874623344892969 / 562949953421312"
  by (rule fl_cert[where e = 1 and n = 7498493379571876]) (simp_all add: pow2_def)

section \<open>RTFx and the transcription time (C8)\<close>

text \<open>
  C8, as stated, fails: with 10 seconds of audio, a total transcription time of 3 seconds
  and one of 3.00390625 seconds both give the reported RTFx 3.33, although the first time
  is strictly smaller.
\<close>

theorem C8_rtfx_not_strict_counterexample:
  "0 < py_sum [10] \<and> 0 < py_sum [3] \<and> py_sum [3] < py_sum [769 / 256]
   \<and> rtfx_of [10] [3] = Inr (1874623344892969 / 562949953421312)
   \<and> rtfx_of [10] [769 / 256] = Inr (1874623344892969 / 562949953421312)"
proof -
  have r1: "round_half_even (7505999378950827 / 2251799813685248 * 100) = 333"
    by (rule round_half_even_cert) simp_all
  have r2: "round_half_even (7496238651539967 / 2251799813685248 * 100) = 333"
    by (rule round_half_even_cert) simp_all
  have p1: "py_round2 (7505999378950827 / 2251799813685248) = 1874623344892969 / 562949953421312"
    by (simp only: py_round2_def r1 of_int_numeral fl_333_100)
  have p2: "py_round2 (7496238651539967 / 2251799813685248) = 1874623344892969 / 562949953421312"
    by (simp only: py_round2_def r2 of_int_numeral fl_333_100)
  show ?thesis
    by (simp add: rtfx_of_def fdiv_def py_sum_def fadd_def
        fl_10 fl_3 fl_769_256 fl_10_3 fl_2560_769 p1 p2)
qed

text \<open>
  C8, amended: for a fixed positive total audio length, a strictly smaller positive total
  transcription time gives a reported RTFx that is at least as large (the division
  succeeds for both, and rounding to two decimals can make the two values equal).
\<close>

theorem C8_rtfx_monotone:
  assumes "0 < py_sum al" "0 < py_sum tt1" "py_sum tt1 < py_sum tt2"
  shows "\<exists>r1 r2. rtfx_of al tt1 = Inr r1 \<and> rtfx_of al tt2 = Inr r2 \<and> r2 \<le> r1"
proof -
  let ?A = "py_sum al" and ?T1 = "py_sum tt1" and ?T2 = "py_sum tt2"
  have T2: "0 < ?T2" using assms by linarith
  have q: "?A / ?T2 \<le> ?A / ?T1"
    using assms by (simp add: frac_le)
  have q2: "0 < ?A / ?T2" using assms(1) T2 by simp
  have m: "fl (?A / ?T2) \<le> fl (?A / ?T1)" using q2 q by (rule fl_mono_pos)
  have n: "0 \<le> fl (?A / ?T2)" using q2 by (intro fl_nonneg) simp
  have "py_round2 (fl (?A / ?T2)) \<le> py_round2 (fl (?A / ?T1))" using n m by (rule py_round2_mono)
  then show ?thesis using assms(2) T2 by (simp add: rtfx_of_def fdiv_def)
qed

text \<open>C8, amended, at 10 seconds of audio and the times 3 and 3.00390625 seconds.\<close>

theorem C8_rtfx_monotone_witness:
  "0 < py_sum [10] \<and> 0 < py_sum [3] \<and> py_sum [3] < py_sum [769 / 256]
   \<and> (\<exists>r1 r2. rtfx_of [10] [3] = Inr r1 \<and> rtfx_of [10] [769 / 256] = Inr r2 \<and> r2 \<le> r1)"
proof -
  have a: "0 < py_sum [10]" by (simp add: py_sum_def fadd_def fl_10)
  have b: "0 < py_sum [3]" by (simp add: py_sum_def fadd_def fl_3)
  have c: "py_sum [3] < py_sum [769 / 256]" by (simp add: py_sum_def fadd_def fl_3 fl_769_256)
  show ?thesis using a b c C8_rtfx_monotone[OF a b c] by simp
qed

section \<open>Subsampling (C5)\<close>




section \<open>The preprocessing path (C4)\<close>

text \<open>
  C4, as stated, fails: for a generative model whose feature extractor has
  \<open>n_samples = 2\<close>, a batch whose second audio has 3 samples (long-form) but whose first
  audio has 1 sample is preprocessed on the standard path.
\<close>

theorem C4_first_sample_only_counterexample:
  "can_generate example_whisper_model
   \<and> n_samples (example_processor (Some 2)) = Some 2
   \<and> 2 < length [0, 0, 0 :: float]
   \<and> preprocessing_kwargs example_whisper_model (example_processor (Some 2)) [[0], [0, 0, 0]]
       = Inr standard_kwargs
   \<and> standard_kwargs \<noteq> long_form_kwargs"
  by (simp add: preprocessing_kwargs_def example_whisper_model_def example_processor_def
      standard_kwargs_def long_form_kwargs_def)

text \<open>
  C4, amended: a non-generative (CTC) model always uses the call with no truncation,
  longest padding and an attention mask; for a generative model and a non-empty batch
  that call is used exactly when the first audio of the batch has more than \<open>n_samples\<close>
  samples, and otherwise the standard call, which passes none of the three arguments.
  \<open>benchmark\<close> hands the chosen arguments to the processor.
\<close>

theorem C4_preprocessing_path:
  "(\<not> can_generate m \<longrightarrow> preprocessing_kwargs m pr audios = Inr long_form_kwargs)
   \<and> (can_generate m \<and> n_samples pr = Some n \<longrightarrow>
        preprocessing_kwargs m pr (a0 # rest) =
          Inr (if n < length a0 then long_form_kwargs else standard_kwargs))
   \<and> truncation long_form_kwargs = Some False
   \<and> padding long_form_kwargs = Some ''longest''
   \<and> return_attention_mask long_form_kwargs = Some True
   \<and> truncation standard_kwargs = None
   \<and> padding standard_kwargs = None
   \<and> return_attention_mask standard_kwargs = None
   \<and> (preprocessing_kwargs m pr (map audio batch) = Inr kwargs
        \<and> call pr (map audio batch) kwargs = Inl e \<longrightarrow>
        benchmark env a m pr model_input_name gk k batch = Inl e)"
  by (simp add: preprocessing_kwargs_def long_form_kwargs_def standard_kwargs_def benchmark_def)

text \<open>
  C4, amended, on a CTC model, on a generative model with a long and with a short first
  audio, and on a processor whose call fails.
\<close>

theorem C4_preprocessing_path_witness:
  "\<not> can_generate example_ctc_model
   \<and> preprocessing_kwargs example_ctc_model (example_processor None) [[0, 0, 0]]
       = Inr long_form_kwargs
   \<and> can_generate example_whisper_model
   \<and> n_samples (example_processor (Some 2)) = Some 2
   \<and> preprocessing_kwargs example_whisper_model (example_processor (Some 2)) [[0, 0, 0], [0]]
       = Inr long_form_kwargs
   \<and> preprocessing_kwargs example_whisper_model (example_processor (Some 2)) [[0], [0, 0, 0]]
       = Inr standard_kwargs
   \<and> benchmark (example_env [] (\<lambda>k. 0)) (example_args ''m'' None) example_ctc_model
         ((example_processor None)\<lparr>call := \<lambda>audios kwargs. Inl (LibraryError ''out of memory'')\<rparr>)
         ''input_features'' None 0 [example_sample 3]
       = Inl (LibraryError ''out of memory'')"
  using
    C4_preprocessing_path[of example_ctc_model "example_processor None" "[[0, 0, 0]]" 2 "[]" "[]"
      "[example_sample 3]" long_form_kwargs "LibraryError ''out of memory''"]
    C4_preprocessing_path[of example_whisper_model "example_processor (Some 2)" "[]" 2
      "[0, 0, 0]" "[[0]]" "[]" long_form_kwargs "LibraryError ''out of memory''"]
    C4_preprocessing_path[of example_whisper_model "example_processor (Some 2)" "[]" 2
      "[0]" "[[0, 0, 0]]" "[]" long_form_kwargs "LibraryError ''out of memory''"]
    C4_preprocessing_path[of example_ctc_model
      "(example_processor None)\<lparr>call := \<lambda>audios kwargs. Inl (LibraryError ''out of memory'')\<rparr>"
      "[]" 2 "[]" "[]" "[example_sample 3]" long_form_kwargs "LibraryError ''out of memory''"
      "example_env [] (\<lambda>k. 0)" "example_args ''m'' None" "''input_features''" None 0]
  by (simp add: example_ctc_model_def example_whisper_model_def example_processor_def
      preprocessing_kwargs_def)

section \<open>What a successful call of \<open>benchmark\<close> has done\<close>

lemma benchmark_Inr:
  assumes "benchmark env a m pr model_input_name gk k batch = Inr c"
  shows "\<exists>kwargs inputs0 inputs pred_ids pred_text per_sample.
           preprocessing_kwargs m pr (map audio batch) = Inr kwargs
         \<and> call pr (map audio batch) kwargs = Inr inputs0
         \<and> to_device env inputs0 (device a) model_input_name = Inr inputs
         \<and> model_inference m gk inputs = Inr pred_ids
         \<and> batch_decode pr pred_ids = Inr pred_text
         \<and> fdiv (fsub (time_time env (Suc k)) (time_time env k)) (of_nat (length batch)) = Inr per_sample
         \<and> c = \<lparr>audio_length_s = map sample.audio_length_s batch,
                 transcription_time_s = replicate (length batch) per_sample,
                 predictions = map (normalizer env) pred_text,
                 references = map norm_text batch\<rparr>"
  using assms by (auto simp: benchmark_def Let_def split: sum.splits)

lemma benchmark_nonempty:
  assumes "benchmark env a m pr model_input_name gk k batch = Inr c"
  shows "batch \<noteq> []"
  using benchmark_Inr[OF assms] by (auto simp: fdiv_def)


lemma benchmark_InrI:
  assumes "preprocessing_kwargs m pr (map audio batch) = Inr kwargs"
    and "call pr (map audio batch) kwargs = Inr inputs0"
    and "to_device env inputs0 (device a) model_input_name = Inr inputs"
    and "model_inference m gk inputs = Inr pred_ids"
    and "batch_decode pr pred_ids = Inr pred_text"
    and "fdiv (fsub (time_time env (Suc k)) (time_time env k)) (of_nat (length batch)) = Inr per_sample"
  shows "benchmark env a m pr model_input_name gk k batch =
           Inr \<lparr>audio_length_s = map sample.audio_length_s batch,
                transcription_time_s = replicate (length batch) per_sample,
                predictions = map (normalizer env) pred_text,
                references = map norm_text batch\<rparr>"
  using assms by (simp add: benchmark_def Let_def)

lemma sum_list_replicate_rat: "sum_list (replicate n (q::rat)) = of_nat n * q"
  by (induction n) (simp_all add: algebra_simps)

section \<open>The per-sample transcription time (C3)\<close>

text \<open>Floats of the example: a batch of three samples that takes 0.9 seconds.\<close>

lemma fl_09: "fl (8106479329266893 / 9007199254740992) = 8106479329266893 / 9007199254740992"
  by (rule fl_cert[where e = "- 1" and n = 8106479329266893]) (simp_all add: pow2_def)

lemma fl_09_3: "fl (8106479329266893 / 9007199254740992 / 3) = 5404319552844595 / 18014398509481984"
  by (rule fl_cert[where e = "- 2" and n = 5404319552844595]) (simp_all add: pow2_def)

lemma fl_03: "fl (5404319552844595 / 18014398509481984) = 5404319552844595 / 18014398509481984"
  by (rule fl_cert[where e = "- 2" and n = 5404319552844595]) (simp_all add: pow2_def)

lemma fl_06: "fl (5404319552844595 / 18014398509481984 + 5404319552844595 / 18014398509481984)
    = 5404319552844595 / 9007199254740992"
  by (rule fl_cert[where e = "- 1" and n = 5404319552844595]) (simp_all add: pow2_def)

lemma fl_09_low: "fl (5404319552844595 / 9007199254740992 + 5404319552844595 / 18014398509481984)
    = 8106479329266892 / 9007199254740992"
  by (rule fl_tie[where e = "- 1" and n = 8106479329266892]) (simp_all add: pow2_def)

lemma example_runtime:
  "fsub (example_clock (Suc 0)) (example_clock 0) = 8106479329266893 / 9007199254740992"
  using fl_09 by (simp add: fsub_def example_clock_def)

lemma example_per_sample:
  "fdiv (8106479329266893 / 9007199254740992) 3 = Inr (5404319552844595 / 18014398509481984)"
  using fl_09_3 by (simp add: fdiv_def)

lemma example_py_sum:
  "py_sum [5404319552844595 / 18014398509481984, 5404319552844595 / 18014398509481984,
           5404319552844595 / 18014398509481984] = 8106479329266892 / 9007199254740992"
proof -
  let ?t = "5404319552844595 / 18014398509481984 :: rat"
  have 1: "fadd 0 ?t = ?t" using fl_03 by (simp add: fadd_def)
  have 2: "fadd ?t ?t = 5404319552844595 / 9007199254740992" using fl_06 by (simp add: fadd_def)
  have 3: "fadd (5404319552844595 / 9007199254740992) ?t = 8106479329266892 / 9007199254740992"
    using fl_09_low by (simp add: fadd_def)
  show ?thesis by (simp only: py_sum_def foldl.simps 1 2 3)
qed

lemma example_benchmark:
  "benchmark (example_env [] example_clock) (example_args ''m'' None) example_ctc_model
     (example_processor None) ''input_features'' None 0
     [example_sample 1, example_sample 1, example_sample 1]
   = Inr \<lparr>audio_length_s = [1, 1, 1],
          transcription_time_s = [5404319552844595 / 18014398509481984,
                                  5404319552844595 / 18014398509481984,
                                  5404319552844595 / 18014398509481984],
          predictions = [''hello'', ''hello'', ''hello''],
          references = [''hello'', ''hello'', ''hello'']\<rparr>"
proof -
  let ?batch = "[example_sample 1, example_sample 1, example_sample 1]"
  let ?env = "example_env [] example_clock"
  have q: "fdiv (fsub (time_time ?env (Suc 0)) (time_time ?env 0)) (of_nat (length ?batch))
      = Inr (5404319552844595 / 18014398509481984)"
    using example_per_sample by (simp add: example_env_def example_runtime)
  have b: "benchmark ?env (example_args ''m'' None) example_ctc_model
     (example_processor None) ''input_features'' None 0 ?batch
     = Inr \<lparr>audio_length_s = map sample.audio_length_s ?batch,
           transcription_time_s = replicate (length ?batch) (5404319552844595 / 18014398509481984),
           predictions = map (normalizer ?env) [''hello'', ''hello'', ''hello''],
           references = map norm_text ?batch\<rparr>"
    by (rule benchmark_InrI[where kwargs = long_form_kwargs and inputs0 = "map audio ?batch"
          and inputs = "map audio ?batch" and pred_ids = "[''hello'', ''hello'', ''hello'']", OF _ _ _ _ _ q])
       (simp_all add: preprocessing_kwargs_def example_ctc_model_def example_processor_def
          example_env_def model_inference_def)
  show ?thesis
    using b by (simp add: example_sample_def example_env_def numeral_3_eq_3)
qed

text \<open>
  C3, as stated, fails in its last part: a batch of three samples with the measured
  runtime 0.9 records three times the float 0.3 (its first two parts), but neither the
  Python sum of the three entries (0.8999999999999999) nor their exact sum is the
  runtime.
\<close>

theorem C3_sum_not_runtime_counterexample:
  "benchmark (example_env [] example_clock) (example_args ''m'' None) example_ctc_model
     (example_processor None) ''input_features'' None 0
     [example_sample 1, example_sample 1, example_sample 1]
   = Inr \<lparr>audio_length_s = [1, 1, 1],
          transcription_time_s = [5404319552844595 / 18014398509481984,
                                  5404319552844595 / 18014398509481984,
                                  5404319552844595 / 18014398509481984],
          predictions = [''hello'', ''hello'', ''hello''],
          references = [''hello'', ''hello'', ''hello'']\<rparr>
   \<and> fsub (example_clock (Suc 0)) (example_clock 0) = 8106479329266893 / 9007199254740992
   \<and> py_sum [5404319552844595 / 18014398509481984, 5404319552844595 / 18014398509481984,
              5404319552844595 / 18014398509481984] \<noteq> 8106479329266893 / 9007199254740992
   \<and> sum_list [5404319552844595 / 18014398509481984, 5404319552844595 / 18014398509481984,
                5404319552844595 / 18014398509481984 :: rat] \<noteq> 8106479329266893 / 9007199254740992"
  unfolding example_py_sum using example_benchmark example_runtime by simp

text \<open>
  C3, amended: a call of \<open>benchmark\<close> that returns was given a non-empty batch; every
  recorded \<open>transcription_time_s\<close> of the batch is the float quotient of the measured
  runtime by the batch size, so all entries of the batch are equal and there is one per
  sample; their exact sum is the batch size times that quotient, which differs from the
  runtime by at most the rounding error of the one division (a relative \<open>2 ^ - 53\<close>, when
  the quotient is not subnormal).
\<close>

theorem C3_time_split:
  assumes "benchmark env a m pr model_input_name gk k batch = Inr c"
  shows "batch \<noteq> []
    \<and> (\<exists>q. fdiv (fsub (time_time env (Suc k)) (time_time env k)) (of_nat (length batch)) = Inr q
          \<and> transcription_time_s c = replicate (length batch) q
          \<and> sum_list (transcription_time_s c) = of_nat (length batch) * q
          \<and> (pow2 (- 1022) \<le> \<bar>fsub (time_time env (Suc k)) (time_time env k)\<bar> / of_nat (length batch) \<longrightarrow>
               \<bar>sum_list (transcription_time_s c) - fsub (time_time env (Suc k)) (time_time env k)\<bar>
                 \<le> \<bar>fsub (time_time env (Suc k)) (time_time env k)\<bar> / 2 ^ 53))"
proof -
  let ?r = "fsub (time_time env (Suc k)) (time_time env k)"
  let ?n = "of_nat (length batch) :: rat"
  from benchmark_Inr[OF assms] obtain q where
    q: "fdiv ?r ?n = Inr q" and t: "transcription_time_s c = replicate (length batch) q"
    by auto
  have ne: "batch \<noteq> []" using assms by (rule benchmark_nonempty)
  then have n: "0 < ?n" by simp
  have qv: "q = fl (?r / ?n)" using q n by (simp add: fdiv_def)
  have s: "sum_list (transcription_time_s c) = ?n * q" by (simp add: t sum_list_replicate_rat)
  have b: "\<bar>?n * q - ?r\<bar> \<le> \<bar>?r\<bar> / 2 ^ 53" if h: "pow2 (- 1022) \<le> \<bar>?r\<bar> / ?n"
  proof -
    have "pow2 (- 1022) \<le> \<bar>?r / ?n\<bar>" using h n by (simp only: abs_divide abs_of_pos)
    then have e: "\<bar>fl (?r / ?n) - ?r / ?n\<bar> \<le> \<bar>?r / ?n\<bar> / 2 ^ 53" by (rule fl_error)
    have "?n * q - ?r = ?n * (fl (?r / ?n) - ?r / ?n)" using n by (simp add: qv right_diff_distrib)
    then have "\<bar>?n * q - ?r\<bar> = ?n * \<bar>fl (?r / ?n) - ?r / ?n\<bar>"
      using n by (simp only: abs_mult abs_of_pos)
    also have "\<dots> \<le> ?n * (\<bar>?r / ?n\<bar> / 2 ^ 53)" using e n by (intro mult_left_mono) simp_all
    also have "\<dots> = \<bar>?r\<bar> / 2 ^ 53" using n by (simp add: abs_divide)
    finally show ?thesis .
  qed
  show ?thesis using ne q t s b by auto
qed

text \<open>C3, amended, on the batch of three samples that takes 0.9 seconds.\<close>

theorem C3_time_split_witness:
  "benchmark (example_env [] example_clock) (example_args ''m'' None) example_ctc_model
     (example_processor None) ''input_features'' None 0
     [example_sample 1, example_sample 1, example_sample 1]
   = Inr \<lparr>audio_length_s = [1, 1, 1],
          transcription_time_s = [5404319552844595 / 18014398509481984,
                                  5404319552844595 / 18014398509481984,
                                  5404319552844595 / 18014398509481984],
          predictions = [''hello'', ''hello'', ''hello''],
          references = [''hello'', ''hello'', ''hello'']\<rparr>
   \<and> pow2 (- 1022) \<le> \<bar>8106479329266893 / 9007199254740992\<bar> / 3
   \<and> \<bar>sum_list [5404319552844595 / 18014398509481984, 5404319552844595 / 18014398509481984,
                  5404319552844595 / 18014398509481984 :: rat]
        - 8106479329266893 / 9007199254740992\<bar>
       \<le> \<bar>8106479329266893 / 9007199254740992\<bar> / 2 ^ 53"
proof -
  have p: "pow2 (- 1022) \<le> \<bar>8106479329266893 / 9007199254740992\<bar> / 3"
    by (simp add: pow2_def)
  show ?thesis
    using C3_time_split[OF example_benchmark] p example_benchmark
    by (simp add: example_env_def example_runtime)
qed

section \<open>Batches, rows and the result loop\<close>

lemma concat_batches: "concat (batches n xs) = xs"
proof (induction n xs rule: batches.induct)
  case (1 n xs)
  show ?case
  proof (cases "xs = [] \<or> n = 0")
    case True
    then show ?thesis by (auto simp: batches.simps[of n xs])
  next
    case False
    then show ?thesis using 1 by (simp add: batches.simps[of n xs])
  qed
qed

lemma batches_nonempty: "b \<in> set (batches n xs) \<Longrightarrow> b \<noteq> []"
proof (induction n xs rule: batches.induct)
  case (1 n xs)
  show ?case
  proof (cases "xs = [] \<or> n = 0")
    case True
    then show ?thesis using 1(2) by (auto simp: batches.simps[of n xs] split: if_splits)
  next
    case False
    then show ?thesis using 1 by (auto simp: batches.simps[of n xs])
  qed
qed

lemma batches_Nil [simp]: "batches n [] = []"
  by (simp add: batches.simps)

lemma rows_zip:
  assumes "length bs = length as" "length cs = length as" "length ds = length as"
  shows "map audio_length_s (map (\<lambda>(al, tt, p, r).
            \<lparr>audio_length_s = al, transcription_time_s = tt, predictions = p, references = r\<rparr>)
            (zip as (zip bs (zip cs ds)))) = as
       \<and> map transcription_time_s (map (\<lambda>(al, tt, p, r).
            \<lparr>audio_length_s = al, transcription_time_s = tt, predictions = p, references = r\<rparr>)
            (zip as (zip bs (zip cs ds)))) = bs
       \<and> map predictions (map (\<lambda>(al, tt, p, r).
            \<lparr>audio_length_s = al, transcription_time_s = tt, predictions = p, references = r\<rparr>)
            (zip as (zip bs (zip cs ds)))) = cs
       \<and> map references (map (\<lambda>(al, tt, p, r).
            \<lparr>audio_length_s = al, transcription_time_s = tt, predictions = p, references = r\<rparr>)
            (zip as (zip bs (zip cs ds)))) = ds"
  using assms
proof (induction as arbitrary: bs cs ds)
  case Nil
  then show ?case by simp
next
  case (Cons a as)
  then obtain b bs' c cs' d ds' where "bs = b # bs'" "cs = c # cs'" "ds = d # ds'"
    by (metis length_Suc_conv)
  then show ?case using Cons by simp
qed

lemma rows_of_Inr:
  assumes "rows_of c = Inr rows"
  shows "map audio_length_s rows = audio_length_s c"
    and "map transcription_time_s rows = transcription_time_s c"
    and "map predictions rows = predictions c"
    and "map references rows = references c"
    and "length (transcription_time_s c) = length (audio_length_s c)"
    and "length (predictions c) = length (audio_length_s c)"
    and "length (references c) = length (audio_length_s c)"
proof -
  have l: "length (transcription_time_s c) = length (audio_length_s c)"
    "length (predictions c) = length (audio_length_s c)"
    "length (references c) = length (audio_length_s c)"
    and r: "rows = map (\<lambda>(al, tt, p, r).
                      \<lparr>audio_length_s = al, transcription_time_s = tt,
                       predictions = p, references = r\<rparr>)
                    (zip (audio_length_s c)
                      (zip (transcription_time_s c) (zip (predictions c) (references c))))"
    using assms by (auto simp: rows_of_def split: if_splits)
  note z = rows_zip[OF l, folded r]
  show "map audio_length_s rows = audio_length_s c" using z by blast
  show "map transcription_time_s rows = transcription_time_s c" using z by blast
  show "map predictions rows = predictions c" using z by blast
  show "map references rows = references c" using z by blast
  show "length (transcription_time_s c) = length (audio_length_s c)" by (rule l)
  show "length (predictions c) = length (audio_length_s c)" by (rule l)
  show "length (references c) = length (audio_length_s c)" by (rule l)
qed

lemma foldl_append_result:
  "foldl append_result acc rs =
     \<lparr>audio_length_s = audio_length_s acc @ map audio_length_s rs,
      transcription_time_s = transcription_time_s acc @ map transcription_time_s rs,
      predictions = predictions acc @ map predictions rs,
      references = references acc @ map references rs\<rparr>"
  by (induction rs arbitrary: acc) (simp_all add: append_result_def)

lemma collect_columns:
  "audio_length_s (collect rs) = map audio_length_s rs"
  "transcription_time_s (collect rs) = map transcription_time_s rs"
  "predictions (collect rs) = map predictions rs"
  "references (collect rs) = map references rs"
  by (simp_all add: collect_def foldl_append_result empty_results_def)

lemma map_batches_Inr:
  assumes "map_batches f k bs = Inr rs"
  shows "\<exists>cs. length cs = length bs
            \<and> (\<forall>j<length bs. f (k + 2 * j) (bs ! j) = Inr (cs ! j) \<and> (\<exists>rows. rows_of (cs ! j) = Inr rows))
            \<and> map audio_length_s rs = concat (map audio_length_s cs)
            \<and> map transcription_time_s rs = concat (map transcription_time_s cs)
            \<and> map predictions rs = concat (map predictions cs)
            \<and> map references rs = concat (map references cs)"
  using assms
proof (induction bs arbitrary: k rs)
  case Nil
  then show ?case by simp
next
  case (Cons b bs)
  from Cons.prems obtain c rows rest where
    c: "f k b = Inr c" and rows: "rows_of c = Inr rows"
    and rest: "map_batches f (k + 2) bs = Inr rest" and rs: "rs = rows @ rest"
    by (auto split: sum.splits)
  from Cons.IH[OF rest] obtain cs where cs: "length cs = length bs"
    "\<forall>j<length bs. f (k + 2 + 2 * j) (bs ! j) = Inr (cs ! j) \<and> (\<exists>rows. rows_of (cs ! j) = Inr rows)"
    "map audio_length_s rest = concat (map audio_length_s cs)"
    "map transcription_time_s rest = concat (map transcription_time_s cs)"
    "map predictions rest = concat (map predictions cs)"
    "map references rest = concat (map references cs)"
    by blast
  have idx: "\<forall>j<length (b # bs). f (k + 2 * j) ((b # bs) ! j) = Inr ((c # cs) ! j) \<and> (\<exists>rows. rows_of ((c # cs) ! j) = Inr rows)"
  proof (intro allI impI)
    fix j assume "j < length (b # bs)"
    then show "f (k + 2 * j) ((b # bs) ! j) = Inr ((c # cs) ! j) \<and> (\<exists>rows. rows_of ((c # cs) ! j) = Inr rows)"
      using c rows cs(2) by (cases j) (auto simp: add.assoc)
  qed
  show ?case
    by (rule exI[of _ "c # cs"]) (use idx cs rows_of_Inr(1-4)[OF rows] in \<open>simp add: rs\<close>)
qed

section \<open>What a successful run has done\<close>



section \<open>A run of the example\<close>

lemma fl_1: "fl 1 = 1"
  by (rule fl_cert[where e = 0 and n = 4503599627370496]) (simp_all add: pow2_def)
lemma fl_2: "fl 2 = 2"
  by (rule fl_cert[where e = 1 and n = 4503599627370496]) (simp_all add: pow2_def)
lemma fl_3_2: "fl (3 / 2) = 3 / 2"
  by (rule fl_cert[where e = 0 and n = 6755399441055744]) (simp_all add: pow2_def)
lemma fl_0: "fl 0 = 0"
  by (simp add: fl_def)

lemma py_round2_0: "py_round2 0 = 0"
  by (simp add: py_round2_def round_half_even_def fl_def)

lemma py_round2_3_2: "py_round2 (3 / 2) = 3 / 2"
proof -
  have "round_half_even (3 / 2 * 100) = 150" by (rule round_half_even_cert) simp_all
  then show ?thesis using fl_3_2 by (simp add: py_round2_def)
qed


lemma example_benchmark_one:
  "benchmark (example_env rows of_nat) a example_ctc_model (example_processor None)
       ''input_features'' None k [example_sample n]
     = Inr \<lparr>audio_length_s = [of_nat n], transcription_time_s = [1],
            predictions = [''hello''], references = [''hello'']\<rparr>"
proof -
  have q: "fdiv (fsub (time_time (example_env rows of_nat) (Suc k))
                      (time_time (example_env rows of_nat) k))
                (of_nat (length [example_sample n])) = Inr 1"
    using fl_1 by (simp add: example_env_def fsub_def fdiv_def)
  show ?thesis
    using benchmark_InrI[where env = "example_env rows of_nat" and a = a and m = example_ctc_model
        and pr = "example_processor None" and model_input_name = "''input_features''" and gk = None
        and k = k and batch = "[example_sample n]" and kwargs = long_form_kwargs
        and inputs0 = "[replicate n 0]" and inputs = "[replicate n 0]" and pred_ids = "[''hello'']"
        and pred_text = "[''hello'']", OF _ _ _ _ _ q]
    by (simp add: preprocessing_kwargs_def example_ctc_model_def example_processor_def
          example_env_def model_inference_def example_sample_def)
qed

lemma example_dataset_map:
  "dataset_map (benchmark (example_env rows of_nat) a example_ctc_model (example_processor None)
       ''input_features'' None) 1 [example_sample 1, example_sample 2]
     = Inr [\<lparr>audio_length_s = 1, transcription_time_s = 1, predictions = ''hello'', references = ''hello''\<rparr>,
            \<lparr>audio_length_s = 2, transcription_time_s = 1, predictions = ''hello'', references = ''hello''\<rparr>]"
proof -
  have b: "batches (nat 1) [example_sample 1, example_sample 2] = [[example_sample 1], [example_sample 2]]"
    by (simp add: batches.simps[of "Suc 0" "[example_sample (Suc 0), example_sample 2]"]
        batches.simps[of "Suc 0" "[example_sample 2]"] batches.simps[of "Suc 0" "[]"])
  show ?thesis
    using example_benchmark_one[of rows a _ 1] example_benchmark_one[of rows a _ 2] b
    by (simp add: dataset_map_def rows_of_def)
qed


lemma example_main:
  "main (example_env [example_sample 1, example_sample 2] of_nat)
        ((example_args ''m'' None)\<lparr>batch_size := 1\<rparr>)
     = ([Manifest_written ''manifest.jsonl''
           \<lparr>audio_length_s = [1, 2], transcription_time_s = [1, 1],
            predictions = [''hello'', ''hello''], references = [''hello'', ''hello'']\<rparr>,
         Print_results_saved ''manifest.jsonl'',
         Print_summary 0 (3 / 2)],
        Inr ())"
proof -
  let ?env = "example_env [example_sample 1, example_sample 2] of_nat"
  let ?a = "(example_args ''m'' None)\<lparr>batch_size := 1\<rparr>"
  have l: "load_model ?env ?a
     = Inr (example_ctc_model, example_processor None, ''input_features'', None)"
    by (simp add: load_model_def example_env_def example_args_def make_gen_kwargs_def
      example_ctc_model_def example_processor_def)
  have d: "load_data ?env ?a = Inr [example_sample 1, example_sample 2]"
    by (simp add: example_env_def)
  have s: "subsample ?a [example_sample 1, example_sample 2] = ([], [example_sample 1, example_sample 2])"
    by (simp add: subsample_def example_args_def)
  have p: "prepare_data ?env [example_sample 1, example_sample 2] = Inr [example_sample 1, example_sample 2]"
    by (simp add: example_env_def)
  have m: "dataset_map (benchmark ?env ?a example_ctc_model (example_processor None)
       ''input_features'' None) (batch_size ?a) [example_sample 1, example_sample 2]
     = Inr [\<lparr>audio_length_s = 1, transcription_time_s = 1, predictions = ''hello'', references = ''hello''\<rparr>,
            \<lparr>audio_length_s = 2, transcription_time_s = 1, predictions = ''hello'', references = ''hello''\<rparr>]"
    using example_dataset_map[of "[example_sample 1, example_sample 2]" ?a] by simp
  have c: "collect [\<lparr>audio_length_s = 1, transcription_time_s = 1, predictions = ''hello'', references = ''hello''\<rparr>,
            \<lparr>audio_length_s = 2, transcription_time_s = 1 :: rat, predictions = ''hello'', references = ''hello''\<rparr>]
      = \<lparr>audio_length_s = [1, 2 :: rat], transcription_time_s = [1, 1],
            predictions = [''hello'', ''hello''], references = [''hello'', ''hello'']\<rparr>"
    by (simp add: collect_def append_result_def empty_results_def)
  have sa: "py_sum [1, 2] = 3" using fl_1 fl_3 by (simp add: py_sum_def fadd_def)
  have st: "py_sum [1, 1] = 2" using fl_1 fl_2 by (simp add: py_sum_def fadd_def)
  have q: "fdiv 3 2 = Inr (3 / 2)" using fl_3_2 by (simp add: fdiv_def)
  have x: "rtfx_of [1, 2] [1, 1] = Inr (3 / 2)"
    unfolding rtfx_of_def sa st q by (simp add: py_round2_3_2)
  have w: "py_round2 (fmul 100 0) = 0" using py_round2_0 by (simp add: fmul_def fl_def)
  have r: "report ?env ?a \<lparr>audio_length_s = [1, 2], transcription_time_s = [1, 1],
            predictions = [''hello'', ''hello''], references = [''hello'', ''hello'']\<rparr>
     = ([Manifest_written ''manifest.jsonl''
           \<lparr>audio_length_s = [1, 2], transcription_time_s = [1, 1],
            predictions = [''hello'', ''hello''], references = [''hello'', ''hello'']\<rparr>,
         Print_results_saved ''manifest.jsonl'',
         Print_summary 0 (3 / 2)],
        Inr ())"
    using x w by (simp add: report_def example_env_def)
  show ?thesis
    using s p m c r unfolding main_def l d by simp
qed

lemma example_run: "main example_run_env example_run_args = (example_run_out, Inr ())"
  unfolding example_run_env_def example_run_args_def example_run_out_def by (rule example_main)

lemma dataset_map_benchmark_Inr:
  assumes "dataset_map (benchmark env a m pr model_input_name gk) n ds = Inr mapped"
  shows "\<exists>cs. length cs = length (batches (nat n) ds)
         \<and> (\<forall>j<length cs.
               benchmark env a m pr model_input_name gk (2 * j) (batches (nat n) ds ! j) = Inr (cs ! j)
               \<and> length (transcription_time_s (cs ! j)) = length (batches (nat n) ds ! j)
               \<and> length (predictions (cs ! j)) = length (batches (nat n) ds ! j))
         \<and> audio_length_s (collect mapped) = map sample.audio_length_s ds
         \<and> references (collect mapped) = map norm_text ds
         \<and> transcription_time_s (collect mapped) = concat (map transcription_time_s cs)
         \<and> predictions (collect mapped) = concat (map predictions cs)
         \<and> length (audio_length_s (collect mapped)) = length ds
         \<and> length (transcription_time_s (collect mapped)) = length ds
         \<and> length (predictions (collect mapped)) = length ds
         \<and> length (references (collect mapped)) = length ds"
proof -
  let ?f = "benchmark env a m pr model_input_name gk"
  let ?bs = "batches (nat n) ds"
  from assms have "map_batches ?f 0 ?bs = Inr mapped" by (simp add: dataset_map_def)
  from map_batches_Inr[OF this] obtain cs where
    len: "length cs = length ?bs"
    and each: "\<forall>j<length ?bs. ?f (0 + 2 * j) (?bs ! j) = Inr (cs ! j) \<and> (\<exists>rows. rows_of (cs ! j) = Inr rows)"
    and al: "map audio_length_s mapped = concat (map audio_length_s cs)"
    and tt: "map transcription_time_s mapped = concat (map transcription_time_s cs)"
    and pr: "map predictions mapped = concat (map predictions cs)"
    and rf: "map references mapped = concat (map references cs)"
    by blast
  have col: "\<forall>j<length cs. audio_length_s (cs ! j) = map sample.audio_length_s (?bs ! j)
       \<and> references (cs ! j) = map norm_text (?bs ! j)
       \<and> length (transcription_time_s (cs ! j)) = length (?bs ! j)
       \<and> length (predictions (cs ! j)) = length (?bs ! j)"
  proof (intro allI impI)
    fix j assume j: "j < length cs"
    then have b: "?f (2 * j) (?bs ! j) = Inr (cs ! j)" and "\<exists>rows. rows_of (cs ! j) = Inr rows"
      using each len by auto
    then obtain rows where rows: "rows_of (cs ! j) = Inr rows" by blast
    from benchmark_Inr[OF b] have
      1: "audio_length_s (cs ! j) = map sample.audio_length_s (?bs ! j)"
      and 2: "references (cs ! j) = map norm_text (?bs ! j)"
      and 3: "length (transcription_time_s (cs ! j)) = length (?bs ! j)"
      by auto
    have 4: "length (predictions (cs ! j)) = length (?bs ! j)"
      using rows_of_Inr(6)[OF rows] 1 by simp
    show "audio_length_s (cs ! j) = map sample.audio_length_s (?bs ! j)
       \<and> references (cs ! j) = map norm_text (?bs ! j)
       \<and> length (transcription_time_s (cs ! j)) = length (?bs ! j)
       \<and> length (predictions (cs ! j)) = length (?bs ! j)"
      using 1 2 3 4 by simp
  qed
  have mal: "map audio_length_s cs = map (map sample.audio_length_s) ?bs"
    using col len by (intro nth_equalityI) simp_all
  have mrf: "map references cs = map (map norm_text) ?bs"
    using col len by (intro nth_equalityI) simp_all
  have A: "audio_length_s (collect mapped) = map sample.audio_length_s ds"
    by (simp add: collect_columns al mal flip: map_concat) (simp add: concat_batches)
  have R: "references (collect mapped) = map norm_text ds"
    by (simp add: collect_columns rf mrf flip: map_concat) (simp add: concat_batches)
  have T: "transcription_time_s (collect mapped) = concat (map transcription_time_s cs)"
    by (simp add: collect_columns tt)
  have P: "predictions (collect mapped) = concat (map predictions cs)"
    by (simp add: collect_columns pr)
  have L: "length mapped = length ds"
    using A by (simp add: collect_columns) (metis length_map)
  have LL: "length (audio_length_s (collect mapped)) = length ds"
    "length (transcription_time_s (collect mapped)) = length ds"
    "length (predictions (collect mapped)) = length ds"
    "length (references (collect mapped)) = length ds"
    by (simp_all add: collect_columns L)
  have E: "\<forall>j<length cs.
               ?f (2 * j) (?bs ! j) = Inr (cs ! j)
               \<and> length (transcription_time_s (cs ! j)) = length (?bs ! j)
               \<and> length (predictions (cs ! j)) = length (?bs ! j)"
    using each col len by simp
  show ?thesis
    using len E A R T P LL by blast
qed

section \<open>The four result lists (C2)\<close>



section \<open>The metrics (C1)\<close>



section \<open>Failures\<close>














section \<open>An empty dataset (C10)\<close>



section \<open>Exceptions (C7)\<close>



section \<open>The parsed command line\<close>

lemma find_option_in_actions: "find_option p s = Some spec \<Longrightarrow> spec \<in> set (actions p)"
  by (auto simp: find_option_def find_Some_iff)

lemma get_option_tuples_in_actions:
  "(spec, ex) \<in> set (get_option_tuples p t) \<Longrightarrow> spec \<in> set (actions p)"
  by (auto simp: get_option_tuples_def Let_def split: if_splits prod.splits)

lemma classify_in_actions:
  assumes "classify p t = Optional spec ex"
  shows "spec \<in> set (actions p)"
proof -
  have "(\<exists>s. find_option p s = Some spec) \<or> (\<exists>ex'. get_option_tuples p t = [(spec, ex')])"
    using assms
    by (auto simp: classify_def split: if_splits option.splits list.splits prod.splits)
  then show ?thesis
  proof
    assume "\<exists>s. find_option p s = Some spec"
    then show ?thesis using find_option_in_actions by blast
  next
    assume "\<exists>ex'. get_option_tuples p t = [(spec, ex')]"
    then obtain ex' where "(spec, ex') \<in> set (get_option_tuples p t)" by auto
    then show ?thesis by (rule get_option_tuples_in_actions)
  qed
qed

lemma script_parser_actions:
  assumes "spec \<in> set (actions script_parser)"
  shows "(kind spec = Store_false \<longrightarrow> dest spec = Some ''streaming'')
       \<and> (\<forall>ty. kind spec = Store ty \<longrightarrow> dest spec \<noteq> Some ''streaming'')"
  using assms by (auto simp: script_parser_def add_argument_def ArgumentParser_def)

lemma store_streaming:
  "dest spec \<noteq> Some ''streaming'' \<Longrightarrow> fst (store spec v st) ''streaming'' = fst st ''streaming''"
  "dest spec = Some ''streaming'' \<Longrightarrow> fst (store spec v st) ''streaming'' = Some v"
  by (auto simp: store_def split: option.splits)

lemma consume_streaming_gen:
  assumes "consume p py_int ts st = Some st'"
    and "\<forall>spec\<in>set (actions p).
           (kind spec = Store_false \<longrightarrow> dest spec = Some ''streaming'')
         \<and> (\<forall>ty. kind spec = Store ty \<longrightarrow> dest spec \<noteq> Some ''streaming'')"
  shows "fst st' ''streaming'' =
           (if \<exists>t\<in>set ts. (case classify p t of
                               Optional spec ex \<Rightarrow> dest spec = Some ''streaming''
                             | _ \<Rightarrow> False)
            then Some (VBool False) else fst st ''streaming'')"
  using assms
proof (induction p py_int ts st rule: consume.induct)
  case (1 p py_int st)
  then show ?case by simp
next
  case (2 p py_int t ts st)
  let ?sel = "\<lambda>t. (case classify p t of
                               Optional spec ex \<Rightarrow> dest spec = Some ''streaming''
                             | _ \<Rightarrow> False)"
  from "2.prems"(1) obtain spec ex where c: "classify p t = Optional spec ex"
    by (auto split: token_class.splits)
  have mem: "spec \<in> set (actions p)" using c by (rule classify_in_actions)
  have pa: "(kind spec = Store_false \<longrightarrow> dest spec = Some ''streaming'')
         \<and> (\<forall>ty. kind spec = Store ty \<longrightarrow> dest spec \<noteq> Some ''streaming'')"
    using "2.prems"(2) mem by blast
  show ?case
  proof (cases "kind spec")
    case Help
    then show ?thesis using "2.prems"(1) c by simp
  next
    case Store_false
    then have d: "dest spec = Some ''streaming''" using pa by simp
    have sel: "?sel t" using c d by simp
    from "2.prems"(1) c Store_false have ex: "ex = None"
      and r: "consume p py_int ts (store spec (VBool False) st) = Some st'"
      by (auto split: option.splits)
    from "2.IH"(3)[OF c Store_false ex r "2.prems"(2)]
    show ?thesis using sel by (simp add: store_streaming(2)[OF d])
  next
    case (Store ty)
    then have d: "dest spec \<noteq> Some ''streaming''" using pa by simp
    have nsel: "\<not> ?sel t" using c d by simp
    show ?thesis
    proof (cases ex)
      case (Some s)
      from "2.prems"(1) c Store Some obtain v where v: "convert py_int ty s = Some v"
        and r: "consume p py_int ts (store spec v st) = Some st'"
        by (auto split: option.splits)
      from "2.IH"(2)[OF c Store Some v r "2.prems"(2)]
      show ?thesis using nsel by (simp add: store_streaming(1)[OF d])
    next
      case None
      from "2.prems"(1) c Store None obtain s ts' v where ts: "ts = s # ts'"
        and pos: "classify p s = Positional"
        and v: "convert py_int ty s = Some v"
        and r: "consume p py_int ts' (store spec v st) = Some st'"
        by (auto split: option.splits list.splits if_splits)
      have nsel': "\<not> ?sel s" using pos by simp
      from "2.IH"(1)[OF c Store None ts pos v r "2.prems"(2)]
      show ?thesis using nsel nsel' by (simp add: ts store_streaming(1)[OF d])
    qed
  qed
qed

lemma consume_streaming:
  assumes "consume script_parser py_int ts st = Some st'"
  shows "fst st' ''streaming'' =
           (if \<exists>t\<in>set ts. selects_streaming t then Some (VBool False) else fst st ''streaming'')"
  using consume_streaming_gen[OF assms] script_parser_actions
  unfolding selects_streaming_def by blast

lemma init_namespace_streaming: "init_namespace script_parser ''streaming'' = Some (VBool True)"
  by (simp add: init_namespace_def script_parser_def add_argument_def ArgumentParser_def)

lemma parse_args_streaming:
  assumes "parse_args script_parser py_int argv = Some ns"
  shows "ns ''streaming'' = Some (VBool (\<not> (\<exists>t\<in>set argv. selects_streaming t)))"
proof -
  from assms obtain seen where
    "consume script_parser py_int argv (init_namespace script_parser, []) = Some (ns, seen)"
    by (auto simp: parse_args_def split: option.splits if_splits)
  from consume_streaming[OF this] show ?thesis
    by (simp add: init_namespace_streaming)
qed

lemma args_of_streaming:
  assumes "args_of ns = Some a"
  shows "ns ''streaming'' = Some (VBool (streaming a))"
  using assms
  by (auto simp: args_of_def attr_bool_def Option.bind_eq_Some_conv
      split: option.splits py_value.splits)

lemma classify_model_id: "classify script_parser ''--model_id'' =
    Optional \<lparr>option_strings = [''--model_id''], dest = Some ''model_id'', kind = Store Type_str,
         default = VNone, required = True\<rparr> None"
  by (simp add: classify_def find_option_def script_parser_def add_argument_def ArgumentParser_def)

lemma classify_dataset: "classify script_parser ''--dataset'' =
    Optional \<lparr>option_strings = [''--dataset''], dest = Some ''dataset'', kind = Store Type_str,
         default = VNone, required = True\<rparr> None"
  by (simp add: classify_def find_option_def script_parser_def add_argument_def ArgumentParser_def)

lemma classify_batch_size: "classify script_parser ''--batch_size'' =
    Optional \<lparr>option_strings = [''--batch_size''], dest = Some ''batch_size'', kind = Store Type_int,
         default = VInt 16, required = False\<rparr> None"
  by (simp add: classify_def find_option_def script_parser_def add_argument_def ArgumentParser_def)

lemma classify_no_streaming: "classify script_parser ''--no-streaming'' =
    Optional \<lparr>option_strings = [''--no-streaming''], dest = Some ''streaming'', kind = Store_false,
         default = VBool True, required = False\<rparr> None"
  by (simp add: classify_def find_option_def script_parser_def add_argument_def ArgumentParser_def)

lemma classify_values:
  "classify p ''m'' = Positional" "classify p ''librispeech'' = Positional"
  "classify p ''1'' = Positional"
  by (simp_all add: classify_def)

lemma selects_streaming_examples:
  "selects_streaming ''--no-streaming''" "\<not> selects_streaming ''--model_id''"
  "\<not> selects_streaming ''--dataset''" "\<not> selects_streaming ''--batch_size''"
  "\<not> selects_streaming ''m''" "\<not> selects_streaming ''librispeech''" "\<not> selects_streaming ''1''"
  by (simp_all add: selects_streaming_def classify_model_id classify_dataset classify_batch_size
      classify_no_streaming classify_values)

lemma example_consume:
  "consume script_parser example_int
     [''--model_id'', ''m'', ''--dataset'', ''librispeech'', ''--batch_size'', ''1'']
     (init_namespace script_parser, [])
   = Some ((init_namespace script_parser)
             (''model_id'' \<mapsto> VStr ''m'', ''dataset'' \<mapsto> VStr ''librispeech'',
              ''batch_size'' \<mapsto> VInt 1),
           [''batch_size'', ''dataset'', ''model_id''])"
  by (simp add: classify_model_id classify_dataset classify_batch_size classify_values
      store_def convert_def example_int_def)

lemma example_parse_args:
  "parse_args script_parser example_int
     [''--model_id'', ''m'', ''--dataset'', ''librispeech'', ''--batch_size'', ''1'']
   = Some ((init_namespace script_parser)
             (''model_id'' \<mapsto> VStr ''m'', ''dataset'' \<mapsto> VStr ''librispeech'',
              ''batch_size'' \<mapsto> VInt 1))"
  unfolding parse_args_def example_consume
  by (simp add: script_parser_def add_argument_def ArgumentParser_def)

lemma example_args_of:
  "args_of ((init_namespace script_parser)
             (''model_id'' \<mapsto> VStr ''m'', ''dataset'' \<mapsto> VStr ''librispeech'',
              ''batch_size'' \<mapsto> VInt 1))
   = Some example_run_args"
  by (simp add: args_of_def attr_str_def attr_int_def attr_opt_int_def attr_bool_def
      init_namespace_def script_parser_def add_argument_def ArgumentParser_def
      example_run_args_def example_args_def)

lemma example_script:
  "script example_run_env example_int
     [''--model_id'', ''m'', ''--dataset'', ''librispeech'', ''--batch_size'', ''1'']
   = Some (example_run_out, Inr ())"
  unfolding script_def example_parse_args by (simp add: example_args_of example_run)

lemma set_defaults_actions:
  assumes "spec \<in> set (actions (set_defaults kwargs p))"
  shows "\<exists>spec0\<in>set (actions p). kind spec = kind spec0 \<and> dest spec = dest spec0"
  using assms by (fastforce simp: set_defaults_def split: option.splits)

lemma set_defaults_before_parse_args:
  assumes "parse_args (set_defaults [(''streaming'', VBool False)] script_parser) py_int argv = Some ns"
  shows "ns ''streaming'' = Some (VBool False)"
proof -
  let ?p = "set_defaults [(''streaming'', VBool False)] script_parser"
  from assms obtain seen where
    c: "consume ?p py_int argv (init_namespace ?p, []) = Some (ns, seen)"
    by (auto simp: parse_args_def split: option.splits if_splits)
  have a: "\<forall>spec\<in>set (actions ?p).
           (kind spec = Store_false \<longrightarrow> dest spec = Some ''streaming'')
         \<and> (\<forall>ty. kind spec = Store ty \<longrightarrow> dest spec \<noteq> Some ''streaming'')"
    using set_defaults_actions[of _ "[(''streaming'', VBool False)]" script_parser]
      script_parser_actions by metis
  have i: "init_namespace ?p ''streaming'' = Some (VBool False)"
    by (simp add: init_namespace_def set_defaults_def script_parser_def add_argument_def
        ArgumentParser_def)
  from consume_streaming_gen[OF c a] show ?thesis by (simp add: i)
qed

section \<open>The streaming flag (C9)\<close>

text \<open>
  C9: when the command line is accepted, \<open>main\<close> is called with the namespace that
  \<open>parse_args\<close> returned from the parser as it was before \<open>set_defaults\<close>, and in it
  \<open>streaming\<close> is true unless a token of the command line selects \<open>--no-streaming\<close>
  (the option itself or an abbreviation of it), in which case it is false.  The later
  \<open>set_defaults(streaming=False)\<close> changes the parser only; had it come before
  \<open>parse_args\<close>, \<open>streaming\<close> would always be false (\<open>set_defaults_before_parse_args\<close>).
\<close>

theorem C9_streaming_default:
  assumes "script env py_int argv = Some r"
  shows "\<exists>ns a. parse_args script_parser py_int argv = Some ns
              \<and> args_of ns = Some a
              \<and> r = main env a
              \<and> streaming a = (\<not> (\<exists>t\<in>set argv. selects_streaming t))"
proof -
  from assms obtain ns a where
    p: "parse_args script_parser py_int argv = Some ns" and a: "args_of ns = Some a"
    and r: "r = main env a"
    by (auto simp: script_def Let_def split: option.splits)
  have "streaming a = (\<not> (\<exists>t\<in>set argv. selects_streaming t))"
    using parse_args_streaming[OF p] args_of_streaming[OF a] by simp
  then show ?thesis using p a r by blast
qed

text \<open>C9 on a command line without \<open>--no-streaming\<close>: the example run, streaming.\<close>

theorem C9_streaming_default_witness:
  "script example_run_env example_int
     [''--model_id'', ''m'', ''--dataset'', ''librispeech'', ''--batch_size'', ''1'']
     = Some (example_run_out, Inr ())
   \<and> (\<exists>ns a. parse_args script_parser example_int
                  [''--model_id'', ''m'', ''--dataset'', ''librispeech'', ''--batch_size'', ''1'']
                  = Some ns
              \<and> args_of ns = Some a
              \<and> (example_run_out, Inr ()) = main example_run_env a
              \<and> streaming a = (\<not> (\<exists>t\<in>set [''--model_id'', ''m'', ''--dataset'', ''librispeech'',
                                               ''--batch_size'', ''1'']. selects_streaming t)))
   \<and> \<not> (\<exists>t\<in>set [''--model_id'', ''m'', ''--dataset'', ''librispeech'', ''--batch_size'', ''1''].
            selects_streaming t)
   \<and> selects_streaming ''--no-streaming''"
  using example_script C9_streaming_default[OF example_script] selects_streaming_examples
  by simp

section \<open>What the results of a batch depend on (C6)\<close>

lemma fl_1_3: "fl (1 / 3) = 6004799503160661 / 18014398509481984"
  by (rule fl_cert[where e = "- 2" and n = 6004799503160661]) (simp_all add: pow2_def)

lemma example_benchmark_of_nat:
  "benchmark (example_env [] of_nat) (example_args ''m'' None) example_ctc_model
     (example_processor None) ''input_features'' None 0
     [example_sample 1, example_sample 1, example_sample 1]
   = Inr \<lparr>audio_length_s = [1, 1, 1],
          transcription_time_s = [6004799503160661 / 18014398509481984,
                                  6004799503160661 / 18014398509481984,
                                  6004799503160661 / 18014398509481984],
          predictions = [''hello'', ''hello'', ''hello''],
          references = [''hello'', ''hello'', ''hello'']\<rparr>"
proof -
  let ?batch = "[example_sample 1, example_sample 1, example_sample 1]"
  let ?env = "example_env [] of_nat :: (sample, audio list, string list) env"
  have q: "fdiv (fsub (time_time ?env (Suc 0)) (time_time ?env 0)) (of_nat (length ?batch))
      = Inr (6004799503160661 / 18014398509481984)"
    using fl_1 fl_1_3 by (simp add: example_env_def fsub_def fdiv_def)
  have b: "benchmark ?env (example_args ''m'' None) example_ctc_model
     (example_processor None) ''input_features'' None 0 ?batch
     = Inr \<lparr>audio_length_s = map sample.audio_length_s ?batch,
           transcription_time_s = replicate (length ?batch) (6004799503160661 / 18014398509481984),
           predictions = map (normalizer ?env) [''hello'', ''hello'', ''hello''],
           references = map norm_text ?batch\<rparr>"
    by (rule benchmark_InrI[where kwargs = long_form_kwargs and inputs0 = "map audio ?batch"
          and inputs = "map audio ?batch" and pred_ids = "[''hello'', ''hello'', ''hello'']", OF _ _ _ _ _ q])
       (simp_all add: preprocessing_kwargs_def example_ctc_model_def example_processor_def
          example_env_def model_inference_def)
  show ?thesis
    using b by (simp add: example_sample_def example_env_def numeral_3_eq_3)
qed

text \<open>
  C6, as stated, fails: two calls of \<open>benchmark\<close> with the same model, processor and
  batch of three samples record different results when the measured runtime differs
  (0.9 seconds against 1 second): the \<open>transcription_time_s\<close> entries are not the same.
\<close>

theorem C6_clock_counterexample:
  "benchmark (example_env [] example_clock) (example_args ''m'' None) example_ctc_model
     (example_processor None) ''input_features'' None 0
     [example_sample 1, example_sample 1, example_sample 1]
   \<noteq> benchmark (example_env [] of_nat) (example_args ''m'' None) example_ctc_model
     (example_processor None) ''input_features'' None 0
     [example_sample 1, example_sample 1, example_sample 1]"
  unfolding example_benchmark example_benchmark_of_nat by simp

text \<open>
  C6, amended: for a given model, processor and libraries, the results that \<open>benchmark\<close>
  records for a batch depend only on the samples of that batch and on the runtime
  measured for that call: with equal samples and equal measured runtime the results are
  equal, whatever the clock and the number of earlier calls; the audio lengths,
  predictions and references (and the raised exception, if any) are equal even when the
  runtimes differ.  In a run, the entries of batch \<open>j\<close> are what \<open>benchmark\<close> returns on
  batch \<open>j\<close> alone; nothing is carried from one batch to the next.
\<close>

theorem C6_benchmark_inputs_and_clock:
  "(fsub (clock1 (Suc k1)) (clock1 k1) = fsub (clock2 (Suc k2)) (clock2 k2) \<longrightarrow>
      benchmark (env\<lparr>time_time := clock1\<rparr>) a m pr model_input_name gk k1 batch
      = benchmark (env\<lparr>time_time := clock2\<rparr>) a m pr model_input_name gk k2 batch)
   \<and> map_sum id (\<lambda>c. (audio_length_s c, predictions c, references c))
        (benchmark (env\<lparr>time_time := clock1\<rparr>) a m pr model_input_name gk k1 batch)
     = map_sum id (\<lambda>c. (audio_length_s c, predictions c, references c))
        (benchmark (env\<lparr>time_time := clock2\<rparr>) a m pr model_input_name gk k2 batch)
   \<and> (dataset_map (benchmark env a m pr model_input_name gk) n ds = Inr mapped \<longrightarrow>
        (\<exists>cs. length cs = length (batches (nat n) ds)
            \<and> (\<forall>j<length cs. benchmark env a m pr model_input_name gk (2 * j)
                                (batches (nat n) ds ! j) = Inr (cs ! j))
            \<and> transcription_time_s (collect mapped) = concat (map transcription_time_s cs)
            \<and> predictions (collect mapped) = concat (map predictions cs)))"
proof -
  have 1: "fsub (clock1 (Suc k1)) (clock1 k1) = fsub (clock2 (Suc k2)) (clock2 k2) \<longrightarrow>
      benchmark (env\<lparr>time_time := clock1\<rparr>) a m pr model_input_name gk k1 batch
      = benchmark (env\<lparr>time_time := clock2\<rparr>) a m pr model_input_name gk k2 batch"
    by (simp add: benchmark_def Let_def split: sum.splits)
  have 2: "map_sum id (\<lambda>c. (audio_length_s c, predictions c, references c))
        (benchmark (env\<lparr>time_time := clock1\<rparr>) a m pr model_input_name gk k1 batch)
     = map_sum id (\<lambda>c. (audio_length_s c, predictions c, references c))
        (benchmark (env\<lparr>time_time := clock2\<rparr>) a m pr model_input_name gk k2 batch)"
    by (simp add: benchmark_def Let_def fdiv_def split: sum.splits)
  have 3: "dataset_map (benchmark env a m pr model_input_name gk) n ds = Inr mapped \<longrightarrow>
        (\<exists>cs. length cs = length (batches (nat n) ds)
            \<and> (\<forall>j<length cs. benchmark env a m pr model_input_name gk (2 * j)
                                (batches (nat n) ds ! j) = Inr (cs ! j))
            \<and> transcription_time_s (collect mapped) = concat (map transcription_time_s cs)
            \<and> predictions (collect mapped) = concat (map predictions cs))"
  proof
    assume "dataset_map (benchmark env a m pr model_input_name gk) n ds = Inr mapped"
    from dataset_map_benchmark_Inr[OF this] obtain cs where
      "length cs = length (batches (nat n) ds)"
      "\<forall>j<length cs.
               benchmark env a m pr model_input_name gk (2 * j) (batches (nat n) ds ! j) = Inr (cs ! j)
               \<and> length (transcription_time_s (cs ! j)) = length (batches (nat n) ds ! j)
               \<and> length (predictions (cs ! j)) = length (batches (nat n) ds ! j)"
      "transcription_time_s (collect mapped) = concat (map transcription_time_s cs)"
      "predictions (collect mapped) = concat (map predictions cs)"
      by blast
    then show "\<exists>cs. length cs = length (batches (nat n) ds)
            \<and> (\<forall>j<length cs. benchmark env a m pr model_input_name gk (2 * j)
                                (batches (nat n) ds ! j) = Inr (cs ! j))
            \<and> transcription_time_s (collect mapped) = concat (map transcription_time_s cs)
            \<and> predictions (collect mapped) = concat (map predictions cs)"
      by (intro exI[of _ cs]) simp
  qed
  show ?thesis using 1 2 3 by (intro conjI) assumption+
qed

text \<open>
  C6, amended: the batch of three samples with the same runtime measured at another
  point of the clock, and the two batches of the example run.
\<close>

theorem C6_benchmark_inputs_and_clock_witness:
  "fsub (example_clock (Suc 0)) (example_clock 0)
     = fsub (example_clock (Suc 4 - 4)) (example_clock (4 - 4))
   \<and> benchmark ((example_env [] of_nat)\<lparr>time_time := example_clock\<rparr>) (example_args ''m'' None)
       example_ctc_model (example_processor None) ''input_features'' None 0
       [example_sample 1, example_sample 1, example_sample 1]
     = benchmark ((example_env [] of_nat)\<lparr>time_time := \<lambda>k. example_clock (k - 4)\<rparr>)
         (example_args ''m'' None)
         example_ctc_model (example_processor None) ''input_features'' None 4
         [example_sample 1, example_sample 1, example_sample 1]
   \<and> dataset_map (benchmark (example_env [] of_nat) (example_args ''m'' None) example_ctc_model
         (example_processor None) ''input_features'' None) 1 [example_sample 1, example_sample 2]
       = Inr [\<lparr>audio_length_s = 1, transcription_time_s = 1, predictions = ''hello'',
               references = ''hello''\<rparr>,
              \<lparr>audio_length_s = 2, transcription_time_s = 1, predictions = ''hello'',
               references = ''hello''\<rparr>]
   \<and> (\<exists>cs. length cs = length (batches (nat 1) [example_sample 1, example_sample 2])
          \<and> (\<forall>j<length cs.
                benchmark (example_env [] of_nat) (example_args ''m'' None) example_ctc_model
                  (example_processor None) ''input_features'' None (2 * j)
                  (batches (nat 1) [example_sample 1, example_sample 2] ! j) = Inr (cs ! j))
          \<and> transcription_time_s (collect
                [\<lparr>audio_length_s = 1, transcription_time_s = 1, predictions = ''hello'',
                  references = ''hello''\<rparr>,
                 \<lparr>audio_length_s = 2, transcription_time_s = 1, predictions = ''hello'',
                  references = ''hello''\<rparr>]) = concat (map transcription_time_s cs)
          \<and> predictions (collect
                [\<lparr>audio_length_s = 1, transcription_time_s = 1, predictions = ''hello'',
                  references = ''hello''\<rparr>,
                 \<lparr>audio_length_s = 2, transcription_time_s = 1, predictions = ''hello'',
                  references = ''hello''\<rparr>]) = concat (map predictions cs))"
proof -
  have r: "fsub (example_clock (Suc 0)) (example_clock 0)
     = fsub (example_clock (Suc 4 - 4)) (example_clock (4 - 4))"
    by simp
  have b: "benchmark ((example_env [] of_nat)\<lparr>time_time := example_clock\<rparr>) (example_args ''m'' None)
       example_ctc_model (example_processor None) ''input_features'' None 0
       [example_sample 1, example_sample 1, example_sample 1]
     = benchmark ((example_env [] of_nat)\<lparr>time_time := \<lambda>k. example_clock (k - 4)\<rparr>)
         (example_args ''m'' None)
         example_ctc_model (example_processor None) ''input_features'' None 4
         [example_sample 1, example_sample 1, example_sample 1]"
    using r C6_benchmark_inputs_and_clock[of example_clock 0 "\<lambda>k. example_clock (k - 4)" 4
        "example_env [] of_nat" "example_args ''m'' None" example_ctc_model "example_processor None"
        "''input_features''" None "[example_sample 1, example_sample 1, example_sample 1]"]
    by simp
  note d = example_dataset_map[of "[]" "example_args ''m'' None"]
  have c: "\<exists>cs. length cs = length (batches (nat 1) [example_sample 1, example_sample 2])
          \<and> (\<forall>j<length cs.
                benchmark (example_env [] of_nat) (example_args ''m'' None) example_ctc_model
                  (example_processor None) ''input_features'' None (2 * j)
                  (batches (nat 1) [example_sample 1, example_sample 2] ! j) = Inr (cs ! j))
          \<and> transcription_time_s (collect
                [\<lparr>audio_length_s = 1, transcription_time_s = 1, predictions = ''hello'',
                  references = ''hello''\<rparr>,
                 \<lparr>audio_length_s = 2, transcription_time_s = 1, predictions = ''hello'',
                  references = ''hello''\<rparr>]) = concat (map transcription_time_s cs)
          \<and> predictions (collect
                [\<lparr>audio_length_s = 1, transcription_time_s = 1, predictions = ''hello'',
                  references = ''hello''\<rparr>,
                 \<lparr>audio_length_s = 2, transcription_time_s = 1, predictions = ''hello'',
                  references = ''hello''\<rparr>]) = concat (map predictions cs)"
    using C6_benchmark_inputs_and_clock[where env = "example_env [] of_nat"
        and a = "example_args ''m'' None" and m = example_ctc_model and pr = "example_processor None"
        and model_input_name = "''input_features''" and gk = None and n = 1
        and ds = "[example_sample 1, example_sample 2]", THEN conjunct2, THEN conjunct2, rule_format, OF d]
    by blast
  show ?thesis using r b d c by (intro conjI) assumption+
qed

end
